theory Spec2Isabelle
  imports Complex_Main
begin

section \<open>JavaScript values\<close>

text \<open>
  The payloads the spec store receives are the results of \<^verbatim>\<open>JSON.parse\<close>: loosely typed
  values. An object is represented by the list of its own entries, in the order
  \<^verbatim>\<open>Object.entries\<close> yields them (keys distinct); a missing property reads as
  \<^verbatim>\<open>undefined\<close>, which is \<open>None\<close> here. Numbers are rationals (every finite double is
  one); rounding is not modelled. A \<^verbatim>\<open>Record<string, T>\<close> of the store is a finite map; the
  prototype chain of JavaScript objects is not modelled.
\<close>

datatype json =
    JNull
  | JBool bool
  | JNum rat
  | JStr string
  | JArr "json list"
  | JObj "(string \<times> json) list"

text \<open>Truthiness of a value, as \<^verbatim>\<open>!v\<close> and \<^verbatim>\<open>if (v)\<close> read it.\<close>

fun truthy :: "json \<Rightarrow> bool" where
  "truthy JNull = False"
| "truthy (JBool b) = b"
| "truthy (JNum n) = (n \<noteq> 0)"
| "truthy (JStr s) = (s \<noteq> [])"
| "truthy (JArr xs) = True"
| "truthy (JObj kvs) = True"

text \<open>
  Property access \<^verbatim>\<open>v?.k\<close> for the keys the store reads (none of them is a built-in
  property of arrays, strings, numbers or booleans): only an object has them.
\<close>

fun getProp :: "json \<Rightarrow> string \<Rightarrow> json option" where
  "getProp (JObj kvs) k = map_of kvs k"
| "getProp v k = None"

text \<open>\<^verbatim>\<open>!v\<close> for a value that may be \<^verbatim>\<open>undefined\<close>.\<close>

fun falsy :: "json option \<Rightarrow> bool" where
  "falsy None = True"
| "falsy (Some v) = (\<not> truthy v)"

text \<open>Values a JavaScript \<^verbatim>\<open>throw\<close> can carry, as the error boundary tells them apart.\<close>

datatype error_class =
    StatsigUninitializedError
  | StatsigInvalidArgumentError
  | StatsigTooManyRequestsError
  | StatsigLocalModeNetworkError
  | OtherError

datatype thrown =
    Nullish
  | NonError "string option"
  | ErrorObject error_class string string

text \<open>A call either returns or throws.\<close>

datatype 'a completion = Returns 'a | Throws thrown

definition TypeError :: thrown where
  "TypeError = ErrorObject OtherError ''TypeError'' []"

section \<open>The spec store: state\<close>

text \<open>Numbers that can be \<^verbatim>\<open>NaN\<close> (the result of \<^verbatim>\<open>parseInt\<close>).\<close>

datatype jsnum = Num int | NaN

record IDList =
  ids :: "string set"
  readBytes :: jsnum
  url :: string
  fileID :: string
  creationTime :: int

record 'spec ConfigStore =
  gates :: "string \<rightharpoonup> 'spec"
  configs :: "string \<rightharpoonup> 'spec"
  idLists :: "string \<rightharpoonup> IDList"
  layers :: "string \<rightharpoonup> 'spec"
  experimentToLayer :: "string \<rightharpoonup> string"

record DiagnosticsSamplingRate =
  dcs :: rat
  logRate :: rat
  idlist :: rat
  initialize :: rat

datatype rate_key = K_dcs | K_log | K_idlist | K_initialize

datatype DataAdapterKey = Rulesets | IDLists

text \<open>
  Of a data adapter the store keeps whether there is one and what its optional method
  \<^verbatim>\<open>supportsPollingUpdatesFor\<close> answers; what its \<^verbatim>\<open>get\<close> returns is an input of
  the operation that calls it.
\<close>

record IDataAdapter =
  supportsPollingUpdatesFor :: "(DataAdapterKey \<Rightarrow> bool) option"

record ExplicitStatsigOptions =
  rulesetsSyncIntervalMs :: int
  idListsSyncIntervalMs :: int
  dataAdapter :: "IDataAdapter option"
  bootstrapValues :: "string option"
  initStrategyForIDLists :: string

text \<open>
  A timer is the handle \<^verbatim>\<open>poll\<close> returned. The store below counts the handles it has
  been given (\<open>timersCreated\<close>) and remembers the ones it passed to
  \<^verbatim>\<open>clearInterval\<close> (\<open>clearedTimers\<close>), so that a new timer can be told from an old one.
\<close>

record 'spec SpecStore =
  initReason :: string
  initialUpdateTime :: json
  lastUpdateTime :: json
  store :: "'spec ConfigStore"
  rulesetsSyncInterval :: int
  idListsSyncInterval :: int
  initialized :: bool
  rulesetsSyncTimer :: "nat option"
  idListsSyncTimer :: "nat option"
  rulesetsSyncTimerLastActiveTime :: int
  idListsSyncTimerLastActiveTime :: int
  rulesetsSyncFailureCount :: nat
  idListsSyncFailureCount :: nat
  dataAdapter :: "IDataAdapter option"
  bootstrapValues :: "string option"
  initStrategyForIDLists :: string
  samplingRates :: DiagnosticsSamplingRate
  clientSDKKeyToAppMap :: json
  timersCreated :: nat
  clearedTimers :: "nat list"

text \<open>
  What the store imports and this development does not have the source of: the
  \<^verbatim>\<open>ConfigSpec\<close> constructor (\<open>None\<close> when it throws) and the name of the spec it
  builds, the constant \<^verbatim>\<open>MAX_SAMPLING_RATE\<close>, and two built-ins of the language:
  the conversion of a value to a property key and \<^verbatim>\<open>JSON.parse\<close> (\<open>None\<close> when it
  throws).
\<close>

record 'spec deps =
  ConfigSpec_new :: "json \<Rightarrow> 'spec option"
  ConfigSpec_name :: "'spec \<Rightarrow> string"
  MAX_SAMPLING_RATE :: rat
  toPropertyKey :: "json \<Rightarrow> string"
  JSON_parse :: "string \<Rightarrow> json option"

text \<open>
  The constructor, with the readings of \<^verbatim>\<open>Date.now()\<close> that the initialisers of the
  two last-active fields take.
\<close>

definition newSpecStore :: "'spec deps \<Rightarrow> ExplicitStatsigOptions \<Rightarrow> int \<Rightarrow> int \<Rightarrow> 'spec SpecStore" where
  "newSpecStore d options nowRulesets nowIdLists =
     \<lparr>initReason = ''Uninitialized'',
      initialUpdateTime = JNum 0,
      lastUpdateTime = JNum 0,
      store = \<lparr>gates = Map.empty, configs = Map.empty, idLists = Map.empty,
               layers = Map.empty, experimentToLayer = Map.empty\<rparr>,
      rulesetsSyncInterval = rulesetsSyncIntervalMs options,
      idListsSyncInterval = idListsSyncIntervalMs options,
      initialized = False,
      rulesetsSyncTimer = None,
      idListsSyncTimer = None,
      rulesetsSyncTimerLastActiveTime = nowRulesets,
      idListsSyncTimerLastActiveTime = nowIdLists,
      rulesetsSyncFailureCount = 0,
      idListsSyncFailureCount = 0,
      dataAdapter = ExplicitStatsigOptions.dataAdapter options,
      bootstrapValues = ExplicitStatsigOptions.bootstrapValues options,
      initStrategyForIDLists = ExplicitStatsigOptions.initStrategyForIDLists options,
      samplingRates = \<lparr>dcs = 0, logRate = 0, idlist = 0, initialize = MAX_SAMPLING_RATE d\<rparr>,
      clientSDKKeyToAppMap = JObj [],
      timersCreated = 0,
      clearedTimers = []\<rparr>"

section \<open>Snapshot replacement\<close>

definition setRate :: "rate_key \<Rightarrow> rat \<Rightarrow> DiagnosticsSamplingRate \<Rightarrow> DiagnosticsSamplingRate" where
  "setRate key v r =
     (case key of
        K_dcs \<Rightarrow> r\<lparr>dcs := v\<rparr>
      | K_log \<Rightarrow> r\<lparr>logRate := v\<rparr>
      | K_idlist \<Rightarrow> r\<lparr>idlist := v\<rparr>
      | K_initialize \<Rightarrow> r\<lparr>initialize := v\<rparr>)"

definition getRate :: "rate_key \<Rightarrow> DiagnosticsSamplingRate \<Rightarrow> rat" where
  "getRate key r =
     (case key of
        K_dcs \<Rightarrow> dcs r
      | K_log \<Rightarrow> logRate r
      | K_idlist \<Rightarrow> idlist r
      | K_initialize \<Rightarrow> initialize r)"

text \<open>\<^verbatim>\<open>safeSet(samplingRates, key, value)\<close>.\<close>

fun safeSet :: "rat \<Rightarrow> DiagnosticsSamplingRate \<Rightarrow> rate_key \<Rightarrow> json option \<Rightarrow> DiagnosticsSamplingRate" where
  "safeSet mx r key (Some (JNum v)) =
     (if v < 0 then setRate key 0 r
      else if v > mx then setRate key mx r
      else setRate key v r)"
| "safeSet mx r key other = r"

text \<open>
  \<^verbatim>\<open>updateSamplingRates(obj)\<close>: nothing for a falsy value or one that is not an object
  (\<^verbatim>\<open>typeof\<close> of an array is \<^verbatim>\<open>'object'\<close> too, and an array has none of the four keys).
\<close>

fun isObjectType :: "json \<Rightarrow> bool" where
  "isObjectType (JObj kvs) = True"
| "isObjectType (JArr xs) = True"
| "isObjectType JNull = True"
| "isObjectType v = False"

definition updateSamplingRates :: "rat \<Rightarrow> DiagnosticsSamplingRate \<Rightarrow> json option \<Rightarrow> DiagnosticsSamplingRate" where
  "updateSamplingRates mx r obj =
     (case obj of
        None \<Rightarrow> r
      | Some v \<Rightarrow>
          if truthy v \<and> isObjectType v then
            (let r1 = safeSet mx r K_dcs (getProp v ''dcs'');
                 r2 = safeSet mx r1 K_idlist (getProp v ''idlist'');
                 r3 = safeSet mx r2 K_initialize (getProp v ''initialize'')
             in safeSet mx r3 K_log (getProp v ''log''))
          else r)"

text \<open>
  One of the three loops of \<^verbatim>\<open>_process\<close>: every element goes through the constructor
  and is stored under its name; the first constructor that throws ends the loop
  (\<open>None\<close>).
\<close>

fun buildSpecs :: "'spec deps \<Rightarrow> json list \<Rightarrow> (string \<rightharpoonup> 'spec) \<Rightarrow> (string \<rightharpoonup> 'spec) option" where
  "buildSpecs d [] acc = Some acc"
| "buildSpecs d (j # js) acc =
     (case ConfigSpec_new d j of
        None \<Rightarrow> None
      | Some spec \<Rightarrow> buildSpecs d js (acc(ConfigSpec_name d spec \<mapsto> spec)))"

text \<open>Decimal digits of an array index, for \<^verbatim>\<open>Object.entries\<close> of an array.\<close>

fun digitsOf :: "nat \<Rightarrow> string" where
  "digitsOf n =
     (if n < 10 then [''0123456789'' ! n]
      else digitsOf (n div 10) @ [''0123456789'' ! (n mod 10)])"

definition objectEntries :: "json \<Rightarrow> (string \<times> json) list" where
  "objectEntries v =
     (case v of
        JObj kvs \<Rightarrow> kvs
      | JArr xs \<Rightarrow> zip (map digitsOf [0..<length xs]) xs
      | other \<Rightarrow> [])"

text \<open>
  The values \<^verbatim>\<open>for (const x of experiments)\<close> yields: the elements of an array, the
  characters of a string; any other value is not iterable and the loop throws a
  \<^verbatim>\<open>TypeError\<close> (\<open>None\<close>).
\<close>

fun iterate :: "json \<Rightarrow> json list option" where
  "iterate (JArr xs) = Some xs"
| "iterate (JStr s) = Some (map (\<lambda>c. JStr [c]) s)"
| "iterate v = None"

fun keyOf :: "'spec deps \<Rightarrow> json \<Rightarrow> string" where
  "keyOf d (JStr s) = s"
| "keyOf d v = toPropertyKey d v"

fun reverseEntries :: "'spec deps \<Rightarrow> (string \<times> json) list \<Rightarrow> (string \<rightharpoonup> string) \<Rightarrow> (string \<rightharpoonup> string) option" where
  "reverseEntries d [] acc = Some acc"
| "reverseEntries d ((layerName, experiments) # rest) acc =
     (case iterate experiments of
        None \<Rightarrow> None
      | Some es \<Rightarrow>
          reverseEntries d rest
            (fold (\<lambda>experimentName m. m(keyOf d experimentName \<mapsto> layerName)) es acc))"

text \<open>\<^verbatim>\<open>_reverseLayerExperimentMapping(layersMapping)\<close>; \<open>None\<close> when it throws.\<close>

definition reverseLayerExperimentMapping :: "'spec deps \<Rightarrow> json option \<Rightarrow> (string \<rightharpoonup> string) option" where
  "reverseLayerExperimentMapping d layersMapping =
     (case layersMapping of
        None \<Rightarrow> Some Map.empty
      | Some v \<Rightarrow>
          if v \<noteq> JNull \<and> isObjectType v then reverseEntries d (objectEntries v) Map.empty
          else Some Map.empty)"

record process_result =
  success :: bool
  hasUpdates :: bool

fun asArray :: "json option \<Rightarrow> json list option" where
  "asArray (Some (JArr xs)) = Some xs"
| "asArray v = None"

text \<open>\<^verbatim>\<open>a ?? b\<close>.\<close>

fun nullish :: "json option \<Rightarrow> json \<Rightarrow> json" where
  "nullish None b = b"
| "nullish (Some JNull) b = b"
| "nullish (Some a) b = a"

text \<open>
  \<^verbatim>\<open>_process(specsJSON)\<close>: the result (or the exception) and the state it leaves.
\<close>

definition process :: "'spec deps \<Rightarrow> 'spec SpecStore \<Rightarrow> json \<Rightarrow> process_result completion \<times> 'spec SpecStore" where
  "process d st specsJSON =
     (if falsy (getProp specsJSON ''has_updates'') then
        (Returns \<lparr>success = True, hasUpdates = False\<rparr>, st)
      else
        (let st1 = st\<lparr>samplingRates :=
                       updateSamplingRates (MAX_SAMPLING_RATE d) (samplingRates st)
                         (getProp specsJSON ''diagnostics'')\<rparr>;
             rejected = (Returns \<lparr>success = False, hasUpdates = True\<rparr>, st1)
         in
           case (asArray (getProp specsJSON ''feature_gates''),
                 asArray (getProp specsJSON ''dynamic_configs''),
                 asArray (getProp specsJSON ''layer_configs'')) of
             (Some gateArray, Some configArray, Some layersArray) \<Rightarrow>
               (case buildSpecs d gateArray Map.empty of
                  None \<Rightarrow> rejected
                | Some updatedGates \<Rightarrow>
                    (case buildSpecs d configArray Map.empty of
                       None \<Rightarrow> rejected
                     | Some updatedConfigs \<Rightarrow>
                         (case buildSpecs d layersArray Map.empty of
                            None \<Rightarrow> rejected
                          | Some updatedLayers \<Rightarrow>
                              (case reverseLayerExperimentMapping d (getProp specsJSON ''layers'') of
                                 None \<Rightarrow> (Throws TypeError, st1)
                               | Some updatedExpToLayer \<Rightarrow>
                                   (Returns \<lparr>success = True, hasUpdates = True\<rparr>,
                                    st1\<lparr>store := (store st1)
                                           \<lparr>gates := updatedGates,
                                            configs := updatedConfigs,
                                            layers := updatedLayers,
                                            experimentToLayer := updatedExpToLayer\<rparr>,
                                        lastUpdateTime :=
                                          nullish (getProp specsJSON ''time'') (lastUpdateTime st1),
                                        clientSDKKeyToAppMap :=
                                          nullish (getProp specsJSON ''sdk_keys_to_app_ids'') (JObj [])\<rparr>)))))
           | other \<Rightarrow> rejected))"

text \<open>
  A payload is malformed when one of its three top-level arrays is not an array or the
  constructor throws on one of their elements.
\<close>

definition constructorThrows :: "'spec deps \<Rightarrow> json option \<Rightarrow> bool" where
  "constructorThrows d a =
     (case asArray a of None \<Rightarrow> False | Some xs \<Rightarrow> list_ex (\<lambda>j. ConfigSpec_new d j = None) xs)"

definition malformed :: "'spec deps \<Rightarrow> json \<Rightarrow> bool" where
  "malformed d p \<longleftrightarrow>
     asArray (getProp p ''feature_gates'') = None \<or>
     asArray (getProp p ''dynamic_configs'') = None \<or>
     asArray (getProp p ''layer_configs'') = None \<or>
     constructorThrows d (getProp p ''feature_gates'') \<or>
     constructorThrows d (getProp p ''dynamic_configs'') \<or>
     constructorThrows d (getProp p ''layer_configs'')"

text \<open>The number a diagnostics object carries under the key of a sampling rate, if any.\<close>

definition keyName :: "rate_key \<Rightarrow> string" where
  "keyName k =
     (case k of
        K_dcs \<Rightarrow> ''dcs''
      | K_log \<Rightarrow> ''log''
      | K_idlist \<Rightarrow> ''idlist''
      | K_initialize \<Rightarrow> ''initialize'')"

definition payloadRate :: "json option \<Rightarrow> rate_key \<Rightarrow> rat option" where
  "payloadRate obj k =
     (case obj of
        Some (JObj kvs) \<Rightarrow>
          (case map_of kvs (keyName k) of Some (JNum v) \<Rightarrow> Some v | other \<Rightarrow> None)
      | other \<Rightarrow> None)"

text \<open>
  A sequence of applications of \<^verbatim>\<open>_process\<close>, each on the state the one before left:
  the results and the states, in order.
\<close>

fun applyAll :: "'spec deps \<Rightarrow> 'spec SpecStore \<Rightarrow> json list \<Rightarrow> (process_result completion \<times> 'spec SpecStore) list" where
  "applyAll d st [] = []"
| "applyAll d st (p # ps) = process d st p # applyAll d (snd (process d st p)) ps"

fun succeeded :: "process_result completion \<Rightarrow> bool" where
  "succeeded (Returns r) = success r"
| "succeeded (Throws e) = False"

definition timesOf :: "(process_result completion \<times> 'spec SpecStore) list \<Rightarrow> json list" where
  "timesOf rs = map (\<lambda>r. lastUpdateTime (snd r)) rs"

fun timeLeq :: "json \<Rightarrow> json \<Rightarrow> bool" where
  "timeLeq (JNum a) (JNum b) = (a \<le> b)"
| "timeLeq a b = False"

fun nonDecreasing :: "json list \<Rightarrow> bool" where
  "nonDecreasing (a # b # rest) = (timeLeq a b \<and> nonDecreasing (b # rest))"
| "nonDecreasing ts = True"

text \<open>
  Payloads whose \<^verbatim>\<open>time\<close>, where they carry one, is a number not below \<open>a\<close> and not
  below the time of the payload before.
\<close>

fun ascendingTimes :: "rat \<Rightarrow> json list \<Rightarrow> bool" where
  "ascendingTimes a [] = True"
| "ascendingTimes a (p # ps) =
     (case getProp p ''time'' of
        None \<Rightarrow> ascendingTimes a ps
      | Some JNull \<Rightarrow> ascendingTimes a ps
      | Some (JNum t) \<Rightarrow> a \<le> t \<and> ascendingTimes t ps
      | Some other \<Rightarrow> False)"

section \<open>Polling timers and the watchdog\<close>

definition SYNC_OUTDATED_MAX :: int where
  "SYNC_OUTDATED_MAX = 120 * 1000"

text \<open>A whole number in a template string.\<close>

definition showInt :: "int \<Rightarrow> string" where
  "showInt i = (if i < 0 then CHR ''-'' # digitsOf (nat (- i)) else digitsOf (nat i))"

definition clearRulesetsSyncTimer :: "'spec SpecStore \<Rightarrow> 'spec SpecStore" where
  "clearRulesetsSyncTimer st =
     (case rulesetsSyncTimer st of
        None \<Rightarrow> st
      | Some t \<Rightarrow> st\<lparr>clearedTimers := clearedTimers st @ [t], rulesetsSyncTimer := None\<rparr>)"

definition clearIdListsSyncTimer :: "'spec SpecStore \<Rightarrow> 'spec SpecStore" where
  "clearIdListsSyncTimer st =
     (case idListsSyncTimer st of
        None \<Rightarrow> st
      | Some t \<Rightarrow> st\<lparr>clearedTimers := clearedTimers st @ [t], idListsSyncTimer := None\<rparr>)"

definition clearTimers :: "'spec SpecStore \<Rightarrow> 'spec SpecStore" where
  "clearTimers st = clearIdListsSyncTimer (clearRulesetsSyncTimer st)"

text \<open>
  Modelled from the spec: \<^verbatim>\<open>poll\<close> of \<^verbatim>\<open>utils/core\<close> is not among the sources. It is
  the polling primitive, a periodic-task scheduler; what the store sees of it is the
  timer it returns, a handle no earlier call returned.
\<close>

definition poll :: "'spec SpecStore \<Rightarrow> nat \<times> 'spec SpecStore" where
  "poll st = (timersCreated st, st\<lparr>timersCreated := Suc (timersCreated st)\<rparr>)"

text \<open>
  \<^verbatim>\<open>pollForUpdates()\<close>, with the two readings of \<^verbatim>\<open>Date.now()\<close> it may take. The
  closures it stores in \<^verbatim>\<open>rulesetsSyncPromise\<close> and \<^verbatim>\<open>idListsSyncPromise\<close> are the
  ticks, modelled as operations of their own.
\<close>

definition pollForUpdates :: "'spec SpecStore \<Rightarrow> int \<Rightarrow> int \<Rightarrow> 'spec SpecStore" where
  "pollForUpdates st nowRulesets nowIdLists =
     (let st1 =
            (if rulesetsSyncTimer st = None then
               (let (t, s) = poll (st\<lparr>rulesetsSyncTimerLastActiveTime := nowRulesets\<rparr>)
                in s\<lparr>rulesetsSyncTimer := Some t\<rparr>)
             else st)
      in if idListsSyncTimer st1 = None then
           (let (t, s) = poll (st1\<lparr>idListsSyncTimerLastActiveTime := nowIdLists\<rparr>)
            in s\<lparr>idListsSyncTimer := Some t\<rparr>)
         else st1)"

text \<open>
  The readings of \<^verbatim>\<open>Date.now()\<close> in one call of \<^verbatim>\<open>resetSyncTimerIfExited\<close>, in the
  order of the source: the two checks, the two messages, and the two of
  \<^verbatim>\<open>pollForUpdates\<close>.
\<close>

record reset_clock =
  nowRulesetsCheck :: int
  nowIdListsCheck :: int
  nowRulesetsMessage :: int
  nowIdListsMessage :: int
  nowRulesetsPoll :: int
  nowIdListsPoll :: int

definition rulesetsMessage :: "int \<Rightarrow> int \<Rightarrow> string" where
  "rulesetsMessage lastActive now =
     ''Force reset sync timer. Last update time: '' @ showInt lastActive @ '', now: '' @ showInt now"

definition idListsMessage :: "int \<Rightarrow> int \<Rightarrow> string" where
  "idListsMessage lastActive now =
     ''Force reset id list sync timer. Last update time: '' @ showInt lastActive @
     '', now: '' @ showInt now"

text \<open>
  \<^verbatim>\<open>resetSyncTimerIfExited()\<close>: \<open>None\<close> is \<^verbatim>\<open>null\<close>, \<open>Some m\<close> is
  \<^verbatim>\<open>new Error(m)\<close>.
\<close>

definition resetSyncTimerIfExited :: "'spec SpecStore \<Rightarrow> reset_clock \<Rightarrow> string option \<times> 'spec SpecStore" where
  "resetSyncTimerIfExited st clk =
     (let rulesetsSyncTimerInactive =
            (rulesetsSyncTimerLastActiveTime st
               < nowRulesetsCheck clk - max SYNC_OUTDATED_MAX (rulesetsSyncInterval st));
          idListsSyncTimerInactive =
            (idListsSyncTimerLastActiveTime st
               < nowIdListsCheck clk - max SYNC_OUTDATED_MAX (idListsSyncInterval st))
      in if \<not> rulesetsSyncTimerInactive \<and> \<not> idListsSyncTimerInactive then (None, st)
         else
           (let st1 = (if rulesetsSyncTimerInactive then clearRulesetsSyncTimer st else st);
                message1 =
                  (if rulesetsSyncTimerInactive then
                     rulesetsMessage (rulesetsSyncTimerLastActiveTime st) (nowRulesetsMessage clk)
                   else []);
                st2 = (if idListsSyncTimerInactive then clearIdListsSyncTimer st1 else st1);
                message2 =
                  (if idListsSyncTimerInactive then
                     message1 @ idListsMessage (idListsSyncTimerLastActiveTime st1) (nowIdListsMessage clk)
                   else message1)
            in (Some message2, pollForUpdates st2 (nowRulesetsPoll clk) (nowIdListsPoll clk))))"

text \<open>
  A loop's last-active timestamp is within \<open>max(120000 ms, period)\<close> of now; the
  timers the watchdog finds dead and has a handle of.
\<close>

definition withinBound :: "int \<Rightarrow> int \<Rightarrow> int \<Rightarrow> bool" where
  "withinBound lastActive now period \<longleftrightarrow> now - lastActive \<le> max 120000 period"

definition rulesetsAlive :: "'spec SpecStore \<Rightarrow> reset_clock \<Rightarrow> bool" where
  "rulesetsAlive st clk =
     withinBound (rulesetsSyncTimerLastActiveTime st) (nowRulesetsCheck clk) (rulesetsSyncInterval st)"

definition idListsAlive :: "'spec SpecStore \<Rightarrow> reset_clock \<Rightarrow> bool" where
  "idListsAlive st clk =
     withinBound (idListsSyncTimerLastActiveTime st) (nowIdListsCheck clk) (idListsSyncInterval st)"

definition deadHandles :: "'spec SpecStore \<Rightarrow> reset_clock \<Rightarrow> nat list" where
  "deadHandles st clk =
     (if rulesetsAlive st clk then []
      else (case rulesetsSyncTimer st of None \<Rightarrow> [] | Some t \<Rightarrow> [t])) @
     (if idListsAlive st clk then []
      else (case idListsSyncTimer st of None \<Rightarrow> [] | Some t \<Rightarrow> [t]))"

section \<open>The error boundary\<close>

text \<open>
  The request \<^verbatim>\<open>logError\<close> sends to the exception endpoint: the key in the
  \<^verbatim>\<open>STATSIG-API-KEY\<close> header and the \<^verbatim>\<open>exception\<close> and \<^verbatim>\<open>info\<close> of the body (the
  other headers and the metadata are constants of the SDK).
\<close>

record exception_post =
  apiKey :: string
  exception :: string
  info :: "string option"

text \<open>
  The fields of the class, and with them what the boundary has done so far: the errors
  it passed to \<^verbatim>\<open>OutputLogger.error\<close> and the requests it posted, oldest first.
\<close>

record ErrorBoundary =
  sdkKey :: string
  seen :: "string set"
  outputErrors :: "thrown list"
  posts :: "exception_post list"

definition newErrorBoundary :: "string \<Rightarrow> ErrorBoundary" where
  "newErrorBoundary key = \<lparr>sdkKey = key, seen = {}, outputErrors = [], posts = []\<rparr>"

text \<open>
  \<^verbatim>\<open>error ?? Error('[Statsig] Error was empty')\<close>; of the stack of the error made here
  only the first line is known.
\<close>

fun unwrap :: "thrown \<Rightarrow> thrown" where
  "unwrap Nullish = ErrorObject OtherError ''Error'' ''Error: [Statsig] Error was empty''"
| "unwrap e = e"

fun errorName :: "thrown \<Rightarrow> string" where
  "errorName (ErrorObject c n s) = (if n \<noteq> [] then n else ''No Name'')"
| "errorName e = ''No Name''"

text \<open>
  \<^verbatim>\<open>isError ? unwrapped.stack : this.getDescription(unwrapped)\<close>. A value that is not
  an error carries what \<^verbatim>\<open>JSON.stringify\<close> makes of it, \<open>None\<close> when that throws.
\<close>

fun errorInfo :: "thrown \<Rightarrow> string option" where
  "errorInfo (ErrorObject c n s) = Some s"
| "errorInfo (NonError (Some d)) = Some d"
| "errorInfo (NonError None) = Some ''[Statsig] Failed to get string for error.''"
| "errorInfo Nullish = None"

text \<open>\<^verbatim>\<open>logError(error, key?)\<close>.\<close>

definition logError :: "ErrorBoundary \<Rightarrow> thrown \<Rightarrow> string option \<Rightarrow> ErrorBoundary" where
  "logError eb error key =
     (if sdkKey eb = [] then eb
      else
        (let unwrapped = unwrap error;
             name = errorName unwrapped
         in if name \<in> seen eb \<or> (case key of None \<Rightarrow> False | Some k \<Rightarrow> k \<in> seen eb) then eb
            else eb\<lparr>seen := insert name (seen eb),
                    posts := posts eb @
                      [\<lparr>apiKey = sdkKey eb, exception = name, info = errorInfo unwrapped\<rparr>]\<rparr>))"

text \<open>
  What a call hands back: a plain value, or a promise with the way it settles. A task
  is run once and either throws or hands something back.
\<close>

datatype 'a outcome = Value 'a | Promise "'a completion"

text \<open>\<^verbatim>\<open>onCaught(error, recover)\<close>.\<close>

fun propagated :: "thrown \<Rightarrow> bool" where
  "propagated (ErrorObject StatsigUninitializedError n s) = True"
| "propagated (ErrorObject StatsigInvalidArgumentError n s) = True"
| "propagated (ErrorObject StatsigTooManyRequestsError n s) = True"
| "propagated e = False"

fun localModeNetwork :: "thrown \<Rightarrow> bool" where
  "localModeNetwork (ErrorObject StatsigLocalModeNetworkError n s) = True"
| "localModeNetwork e = False"

definition onCaught :: "ErrorBoundary \<Rightarrow> thrown \<Rightarrow> (thrown \<Rightarrow> 'a) \<Rightarrow> 'a completion \<times> ErrorBoundary" where
  "onCaught eb error recover =
     (if propagated error then (Throws error, eb)
      else if localModeNetwork error then (Returns (recover error), eb)
      else (Returns (recover error),
            logError (eb\<lparr>outputErrors := outputErrors eb @ [error]\<rparr>) error None))"

text \<open>
  \<^verbatim>\<open>capture(task, recover)\<close>, given what \<^verbatim>\<open>task()\<close> did. The handler of a rejected
  promise runs when the promise settles; the state returned is the one after that.
\<close>

fun capture :: "ErrorBoundary \<Rightarrow> 'a outcome completion \<Rightarrow> (thrown \<Rightarrow> 'a) \<Rightarrow> 'a outcome completion \<times> ErrorBoundary" where
  "capture eb (Returns (Value v)) recover = (Returns (Value v), eb)"
| "capture eb (Returns (Promise (Returns v))) recover = (Returns (Promise (Returns v)), eb)"
| "capture eb (Returns (Promise (Throws e))) recover =
     (case onCaught eb e recover of (r, eb') \<Rightarrow> (Returns (Promise r), eb'))"
| "capture eb (Throws e) recover =
     (case onCaught eb e recover of
        (Returns v, eb') \<Rightarrow> (Returns (Value v), eb')
      | (Throws e', eb') \<Rightarrow> (Throws e', eb'))"

text \<open>
  The error a task failed with, if it failed, and the shape in which \<^verbatim>\<open>capture\<close> hands
  back a recovery value: as a value where the task threw, as a resolved promise where
  its promise rejected.
\<close>

fun failure :: "'a outcome completion \<Rightarrow> thrown option" where
  "failure (Throws e) = Some e"
| "failure (Returns (Promise (Throws e))) = Some e"
| "failure t = None"

fun recovered :: "'a outcome completion \<Rightarrow> 'a \<Rightarrow> 'a outcome completion" where
  "recovered (Throws e) v = Returns (Value v)"
| "recovered t v = Returns (Promise (Returns v))"

text \<open>
  A sequence of calls of \<^verbatim>\<open>logError\<close>: the state after them, and for each call the key
  it was given and whether it posted.
\<close>

fun logErrors :: "ErrorBoundary \<Rightarrow> (thrown \<times> string option) list \<Rightarrow> ErrorBoundary" where
  "logErrors eb [] = eb"
| "logErrors eb ((e, k) # calls) = logErrors (logError eb e k) calls"

fun postingCalls :: "ErrorBoundary \<Rightarrow> (thrown \<times> string option) list \<Rightarrow> (string option \<times> bool) list" where
  "postingCalls eb [] = []"
| "postingCalls eb ((e, k) # calls) =
     (k, length (posts eb) < length (posts (logError eb e k))) # postingCalls (logError eb e k) calls"

section \<open>ID lists: the ranged fetch\<close>

text \<open>
  \<^verbatim>\<open>parseInt(string)\<close> with no radix: leading white space is skipped, a sign is read, a
  prefix \<^verbatim>\<open>0x\<close> or \<^verbatim>\<open>0X\<close> selects base 16, and the longest run of digits is the
  value; with no digit the result is \<^verbatim>\<open>NaN\<close>. What follows the digits is ignored.
\<close>

definition isWhiteSpace :: "char \<Rightarrow> bool" where
  "isWhiteSpace c \<longleftrightarrow> c \<in> set [CHR '' '', CHR 0x09, CHR 0x0A, CHR 0x0B, CHR 0x0C, CHR 0x0D]"

definition digitValue :: "char \<Rightarrow> nat option" where
  "digitValue c =
     map_of
       [(CHR ''0'', 0), (CHR ''1'', 1), (CHR ''2'', 2), (CHR ''3'', 3), (CHR ''4'', 4),
        (CHR ''5'', 5), (CHR ''6'', 6), (CHR ''7'', 7), (CHR ''8'', 8), (CHR ''9'', 9),
        (CHR ''a'', 10), (CHR ''b'', 11), (CHR ''c'', 12), (CHR ''d'', 13), (CHR ''e'', 14),
        (CHR ''f'', 15), (CHR ''A'', 10), (CHR ''B'', 11), (CHR ''C'', 12), (CHR ''D'', 13),
        (CHR ''E'', 14), (CHR ''F'', 15)] c"

fun leadingDigits :: "nat \<Rightarrow> string \<Rightarrow> nat list" where
  "leadingDigits radix [] = []"
| "leadingDigits radix (c # cs) =
     (case digitValue c of
        None \<Rightarrow> []
      | Some v \<Rightarrow> if v < radix then v # leadingDigits radix cs else [])"

definition digitsValue :: "nat \<Rightarrow> nat list \<Rightarrow> jsnum" where
  "digitsValue radix ds =
     (if ds = [] then NaN else Num (int (foldl (\<lambda>a v. a * radix + v) 0 ds)))"

fun negate :: "jsnum \<Rightarrow> jsnum" where
  "negate (Num i) = Num (- i)"
| "negate NaN = NaN"

fun parseUnsigned :: "string \<Rightarrow> jsnum" where
  "parseUnsigned (a # b # cs) =
     (if a = CHR ''0'' \<and> (b = CHR ''x'' \<or> b = CHR ''X'') then digitsValue 16 (leadingDigits 16 cs)
      else digitsValue 10 (leadingDigits 10 (a # b # cs)))"
| "parseUnsigned cs = digitsValue 10 (leadingDigits 10 cs)"

fun parseSigned :: "string \<Rightarrow> jsnum" where
  "parseSigned [] = NaN"
| "parseSigned (c # cs) =
     (if c = CHR ''-'' then negate (parseUnsigned cs)
      else if c = CHR ''+'' then parseUnsigned cs
      else parseUnsigned (c # cs))"

definition parseInt :: "string \<Rightarrow> jsnum" where
  "parseInt s = parseSigned (dropWhile isWhiteSpace s)"

text \<open>\<^verbatim>\<open>typeof x === 'number'\<close> for the result of \<^verbatim>\<open>parseInt\<close>: \<^verbatim>\<open>NaN\<close> is a number too.\<close>

fun typeofIsNumber :: "jsnum \<Rightarrow> bool" where
  "typeofIsNumber (Num i) = True"
| "typeofIsNumber NaN = True"

text \<open>\<^verbatim>\<open>a + b\<close> and \<^verbatim>\<open>a >= 0\<close> on such numbers.\<close>

fun addNum :: "jsnum \<Rightarrow> jsnum \<Rightarrow> jsnum" where
  "addNum (Num a) (Num b) = Num (a + b)"
| "addNum a b = NaN"

fun nonNegative :: "jsnum \<Rightarrow> bool" where
  "nonNegative (Num i) = (0 \<le> i)"
| "nonNegative NaN = False"

text \<open>
  What \<^verbatim>\<open>safeFetch\<close> gave: it threw, or returned no response, or returned a response,
  of which the fetch reads the \<^verbatim>\<open>content-length\<close> header (\<open>None\<close> when there is none)
  and the body.
\<close>

record response =
  contentLength :: "string option"
  body :: "string completion"

datatype fetch_result = NetworkError | NoResponse | Response response

text \<open>
  \<^verbatim>\<open>genFetchIDList(name, url, readSize)\<close>, given the answer to its request (the url
  and the offset only shape the request). The helper
  \<^verbatim>\<open>IDListUtil.updateIdList\<close> is an argument; an exception it throws, like every
  exception of the second \<^verbatim>\<open>try\<close> block, is caught and only logged.
\<close>

definition genFetchIDList ::
  "((string \<rightharpoonup> IDList) \<Rightarrow> string \<Rightarrow> string \<Rightarrow> (string \<rightharpoonup> IDList)) \<Rightarrow>
   'spec SpecStore \<Rightarrow> string \<Rightarrow> fetch_result \<Rightarrow> 'spec SpecStore" where
  "genFetchIDList updateIdLists st name res =
     (case res of
        NetworkError \<Rightarrow> st
      | NoResponse \<Rightarrow> st
      | Response r \<Rightarrow>
          (case contentLength r of
             None \<Rightarrow> st
           | Some header \<Rightarrow>
               (let len = parseInt header; idls = idLists (store st) in
                if typeofIsNumber len then
                  (case idls name of
                     None \<Rightarrow> st
                   | Some l \<Rightarrow>
                       (let idls1 = idls(name \<mapsto> l\<lparr>readBytes := addNum (readBytes l) len\<rparr>) in
                        case body r of
                          Throws e \<Rightarrow> st\<lparr>store := (store st)\<lparr>idLists := idls1\<rparr>\<rparr>
                        | Returns text \<Rightarrow>
                            st\<lparr>store := (store st)\<lparr>idLists := updateIdLists idls1 name text\<rparr>\<rparr>))
                else st\<lparr>store := (store st)\<lparr>idLists := idls(name := None)\<rparr>\<rparr>)))"

text \<open>
  Modelled from the spec: \<^verbatim>\<open>IDListUtil.updateIdList\<close> is not among the sources. The
  body of a ranged response is a newline-separated sequence of records, a sign and a
  hashed ID; \<^verbatim>\<open>+\<close> inserts the ID and \<^verbatim>\<open>-\<close> removes it; a trailing partial line
  (one with no newline after it) is discarded.
\<close>

fun completeLines :: "string \<Rightarrow> string \<Rightarrow> string list" where
  "completeLines cur [] = []"
| "completeLines cur (c # cs) =
     (if c = CHR 0x0A then cur # completeLines [] cs else completeLines (cur @ [c]) cs)"

fun applyRecord :: "string set \<Rightarrow> string \<Rightarrow> string set" where
  "applyRecord s [] = s"
| "applyRecord s (c # hashedID) =
     (if c = CHR ''+'' then insert hashedID s
      else if c = CHR ''-'' then s - {hashedID}
      else s)"

definition updateIdList :: "(string \<rightharpoonup> IDList) \<Rightarrow> string \<Rightarrow> string \<Rightarrow> (string \<rightharpoonup> IDList)" where
  "updateIdList idls name data =
     (case idls name of
        None \<Rightarrow> idls
      | Some l \<Rightarrow> idls(name \<mapsto> l\<lparr>ids := foldl applyRecord (ids l) (completeLines [] data)\<rparr>))"

section \<open>Fetching config specs\<close>

text \<open>What the fetch methods resolve to: \<^verbatim>\<open>{ synced, error? }\<close>.\<close>

record sync_result =
  synced :: bool
  error :: "thrown option"

text \<open>What \<^verbatim>\<open>dataAdapter.get(key)\<close> resolves to: \<^verbatim>\<open>{ result?, error? }\<close>.\<close>

record AdapterResponse =
  result :: "string option"
  adapterError :: "thrown option"

definition SyntaxError :: thrown where
  "SyntaxError = ErrorObject OtherError ''SyntaxError'' []"

definition StatsigInvalidConfigSpecsResponseError :: thrown where
  "StatsigInvalidConfigSpecsResponseError =
     ErrorObject OtherError ''StatsigInvalidConfigSpecsResponseError'' []"

definition StatsigInvalidDataAdapterValuesError :: thrown where
  "StatsigInvalidDataAdapterValuesError =
     ErrorObject OtherError ''StatsigInvalidDataAdapterValuesError'' []"

definition StatsigInvalidIDListsResponseError :: thrown where
  "StatsigInvalidIDListsResponseError =
     ErrorObject OtherError ''StatsigInvalidIDListsResponseError'' []"

text \<open>
  The \<^verbatim>\<open>catch\<close> of the network fetches: a local-mode network error is no error.
\<close>

definition caughtNetwork :: "thrown \<Rightarrow> sync_result" where
  "caughtNetwork e =
     (if localModeNetwork e then \<lparr>synced = False, error = None\<rparr>
      else \<lparr>synced = False, error = Some e\<rparr>)"

text \<open>
  What the callback \<^verbatim>\<open>rulesUpdatedCallback\<close> of the options does when it is called, if
  there is one.
\<close>

datatype callback = NoCallback | CallbackReturns | CallbackThrows thrown

text \<open>
  \<^verbatim>\<open>_fetchConfigSpecsFromServer()\<close>. \<open>download\<close> is the text of the response of
  \<^verbatim>\<open>fetcher.downloadConfigSpecs\<close>, or what the request or the reading of its body
  threw. The write-back to the adapter is not awaited and touches no field.
\<close>

definition fetchConfigSpecsFromServer ::
  "'spec deps \<Rightarrow> 'spec SpecStore \<Rightarrow> string completion \<Rightarrow> callback \<Rightarrow> sync_result \<times> 'spec SpecStore" where
  "fetchConfigSpecsFromServer d st download cb =
     (case download of
        Throws e \<Rightarrow> (caughtNetwork e, st)
      | Returns specsString \<Rightarrow>
          (case JSON_parse d specsString of
             None \<Rightarrow> (caughtNetwork SyntaxError, st)
           | Some specsJSON \<Rightarrow>
               (case process d st specsJSON of
                  (Throws e, st1) \<Rightarrow> (caughtNetwork e, st1)
                | (Returns r, st1) \<Rightarrow>
                    if \<not> success r then
                      (\<lparr>synced = False, error = Some StatsigInvalidConfigSpecsResponseError\<rparr>, st1)
                    else
                      (let st2 = st1\<lparr>initReason := ''Network''\<rparr> in
                       case cb of
                         CallbackThrows e \<Rightarrow> (caughtNetwork e, st2)
                       | other \<Rightarrow> (\<lparr>synced = True, error = None\<rparr>, st2)))))"

text \<open>
  \<^verbatim>\<open>_fetchConfigSpecsFromAdapter()\<close>. \<open>got\<close> is what
  \<^verbatim>\<open>dataAdapter.get(DataAdapterKey.Rulesets)\<close> resolved to, or what it threw.
\<close>

definition fetchConfigSpecsFromAdapter ::
  "'spec deps \<Rightarrow> 'spec SpecStore \<Rightarrow> AdapterResponse completion \<Rightarrow> sync_result \<times> 'spec SpecStore" where
  "fetchConfigSpecsFromAdapter d st got =
     (let invalid = \<lparr>synced = False, error = Some StatsigInvalidDataAdapterValuesError\<rparr> in
      case dataAdapter st of
        None \<Rightarrow> (\<lparr>synced = False, error = None\<rparr>, st)
      | Some adapter \<Rightarrow>
          (case got of
             Throws e \<Rightarrow> (\<lparr>synced = False, error = Some e\<rparr>, st)
           | Returns resp \<Rightarrow>
               (case result resp of
                  None \<Rightarrow> (invalid, st)
                | Some text \<Rightarrow>
                    if text \<noteq> [] \<and> adapterError resp = None then
                      (case JSON_parse d text of
                         None \<Rightarrow> (\<lparr>synced = False, error = Some SyntaxError\<rparr>, st)
                       | Some configSpecs \<Rightarrow>
                           (case process d st configSpecs of
                              (Throws e, st1) \<Rightarrow> (\<lparr>synced = False, error = Some e\<rparr>, st1)
                            | (Returns r, st1) \<Rightarrow>
                                if success r then
                                  (\<lparr>synced = True, error = None\<rparr>, st1\<lparr>initReason := ''DataAdapter''\<rparr>)
                                else (invalid, st1)))
                    else (invalid, st))))"

text \<open>\<^verbatim>\<open>adapter?.supportsPollingUpdatesFor?.(key) === true\<close>.\<close>

definition shouldSyncFromAdapter :: "'spec SpecStore \<Rightarrow> DataAdapterKey \<Rightarrow> bool" where
  "shouldSyncFromAdapter st key =
     (case dataAdapter st of
        None \<Rightarrow> False
      | Some adapter \<Rightarrow>
          (case supportsPollingUpdatesFor adapter of None \<Rightarrow> False | Some supports \<Rightarrow> supports key))"

text \<open>
  What the outside world answers during one ruleset sync: the adapter's \<^verbatim>\<open>get\<close>, the
  download, the callback.
\<close>

record rulesets_env =
  adapterGetRulesets :: "AdapterResponse completion"
  download :: "string completion"
  rulesUpdatedCallback :: callback

text \<open>\<^verbatim>\<open>_syncConfigSpecs()\<close>.\<close>

definition syncConfigSpecs :: "'spec deps \<Rightarrow> 'spec SpecStore \<Rightarrow> rulesets_env \<Rightarrow> 'spec SpecStore" where
  "syncConfigSpecs d st env =
     (let (r, st1) =
            (if shouldSyncFromAdapter st Rulesets
             then fetchConfigSpecsFromAdapter d st (adapterGetRulesets env)
             else fetchConfigSpecsFromServer d st (download env) (rulesUpdatedCallback env))
      in if synced r then st1\<lparr>rulesetsSyncFailureCount := 0\<rparr>
         else if error r \<noteq> None then
           (let n = Suc (rulesetsSyncFailureCount st1) in
            if int n * rulesetsSyncInterval st1 > SYNC_OUTDATED_MAX
            then st1\<lparr>rulesetsSyncFailureCount := 0\<rparr>
            else st1\<lparr>rulesetsSyncFailureCount := n\<rparr>)
         else st1)"

section \<open>Synchronising ID lists\<close>

text \<open>
  The helpers of \<^verbatim>\<open>IDListUtil\<close> the store calls; their source is not at hand, so they
  are arguments. \<^verbatim>\<open>parseLookupResponse\<close> yields the entries of the lookup, or nothing.
\<close>

record IDListsLookupItem =
  itemUrl :: json
  itemFileID :: json
  itemCreationTime :: int
  itemSize :: "int option"

record IDListUtil =
  parseLookupResponse :: "json \<Rightarrow> (string \<times> IDListsLookupItem) list option"
  parseBootstrapLookup :: "string \<Rightarrow> string list option"
  updateIdListFn :: "(string \<rightharpoonup> IDList) \<Rightarrow> string \<Rightarrow> string \<Rightarrow> (string \<rightharpoonup> IDList)"
  removeOldIdLists :: "(string \<rightharpoonup> IDList) \<Rightarrow> (string \<times> IDListsLookupItem) list \<Rightarrow> (string \<rightharpoonup> IDList)"

text \<open>
  What the outside world answers during one ID-list sync: the adapter's lookup and its
  per-list values, the response of \<^verbatim>\<open>fetcher.getIDLists()\<close> (what it threw, no
  response, or its JSON, whose reading may throw), the ranged responses by list name,
  and what saving to the adapter threw, if it did.
\<close>

record idlists_env =
  adapterGetIDLists :: "AdapterResponse completion"
  adapterGetIDList :: "string \<Rightarrow> AdapterResponse completion"
  getIDLists :: "json completion option completion"
  rangedResponse :: "string \<Rightarrow> fetch_result"
  saveToDataAdapter :: "thrown option"

text \<open>
  One iteration of the loop of \<^verbatim>\<open>syncIdListsFromNetwork\<close> over the lookup: the lists,
  and the names a ranged fetch was started for.
\<close>

fun isString :: "json \<Rightarrow> bool" where
  "isString (JStr s) = True"
| "isString v = False"

fun lessEqNum :: "int \<Rightarrow> jsnum \<Rightarrow> bool" where
  "lessEqNum a (Num b) = (a \<le> b)"
| "lessEqNum a NaN = False"

definition lookupStep ::
  "(string \<rightharpoonup> IDList) \<times> string list \<Rightarrow> string \<times> IDListsLookupItem \<Rightarrow> (string \<rightharpoonup> IDList) \<times> string list" where
  "lookupStep acc entry =
     (let (idls, started) = acc;
          (name, item) = entry;
          newCreationTime = itemCreationTime item;
          oldCreationTime = (case idls name of None \<Rightarrow> 0 | Some l \<Rightarrow> creationTime l)
      in if isString (itemUrl item) \<and> \<not> newCreationTime < oldCreationTime \<and> isString (itemFileID item)
         then
           (let newFile =
                  ((case idls name of None \<Rightarrow> True | Some l \<Rightarrow> itemFileID item \<noteq> JStr (fileID l))
                   \<and> newCreationTime \<ge> oldCreationTime);
                idls1 =
                  (if idls name = None \<or> newFile then
                     idls(name \<mapsto>
                       \<lparr>ids = {}, readBytes = Num 0,
                        url = (case itemUrl item of JStr s \<Rightarrow> s | other \<Rightarrow> []),
                        fileID = (case itemFileID item of JStr s \<Rightarrow> s | other \<Rightarrow> []),
                        creationTime = newCreationTime\<rparr>)
                   else idls);
                fileSize = (case itemSize item of None \<Rightarrow> 0 | Some n \<Rightarrow> n);
                readSize = (case idls1 name of None \<Rightarrow> Num 0 | Some l \<Rightarrow> readBytes l)
            in if lessEqNum fileSize readSize then (idls1, started)
               else (idls1, started @ [name]))
         else (idls, started))"

text \<open>
  \<^verbatim>\<open>syncIdListsFromNetwork()\<close>. The ranged fetches run after the loop and after
  \<^verbatim>\<open>removeOldIdLists\<close>; they are applied here in the order they were started.
\<close>

definition syncIdListsFromNetwork ::
  "IDListUtil \<Rightarrow> 'spec SpecStore \<Rightarrow> idlists_env \<Rightarrow> sync_result \<times> 'spec SpecStore" where
  "syncIdListsFromNetwork u st env =
     (case getIDLists env of
        Throws e \<Rightarrow> (caughtNetwork e, st)
      | Returns None \<Rightarrow> (\<lparr>synced = False, error = None\<rparr>, st)
      | Returns (Some (Throws e)) \<Rightarrow> (\<lparr>synced = False, error = Some e\<rparr>, st)
      | Returns (Some (Returns js)) \<Rightarrow>
          (case parseLookupResponse u js of
             None \<Rightarrow> (\<lparr>synced = False, error = Some StatsigInvalidIDListsResponseError\<rparr>, st)
           | Some lookup \<Rightarrow>
               (let (idls1, started) = foldl lookupStep (idLists (store st), []) lookup;
                    st1 = st\<lparr>store := (store st)\<lparr>idLists := removeOldIdLists u idls1 lookup\<rparr>\<rparr>;
                    st2 = foldl (\<lambda>s name. genFetchIDList (updateIdListFn u) s name (rangedResponse env name))
                            st1 started
                in case (dataAdapter st2, saveToDataAdapter env) of
                     (Some adapter, Some e) \<Rightarrow> (\<lparr>synced = False, error = Some e\<rparr>, st2)
                   | other \<Rightarrow> (\<lparr>synced = True, error = None\<rparr>, st2))))"

text \<open>
  \<^verbatim>\<open>syncIdListsFromDataAdapter()\<close>: one task per name of the lookup. A \<^verbatim>\<open>get\<close> that
  rejects is logged and the list skipped. A value that is missing rejects the task, and
  with it the \<^verbatim>\<open>Promise.all\<close> and the sync, while the other tasks still run; the
  state returned is the one after all of them.
\<close>

definition valueMissing :: "idlists_env \<Rightarrow> string \<Rightarrow> bool" where
  "valueMissing env name =
     (case adapterGetIDList env name of
        Throws e \<Rightarrow> False
      | Returns resp \<Rightarrow> (case result resp of None \<Rightarrow> True | Some text \<Rightarrow> text = []))"

definition adapterListStep ::
  "IDListUtil \<Rightarrow> idlists_env \<Rightarrow> (string \<rightharpoonup> IDList) \<Rightarrow> string \<Rightarrow> (string \<rightharpoonup> IDList)" where
  "adapterListStep u env idls name =
     (case adapterGetIDList env name of
        Throws e \<Rightarrow> idls
      | Returns resp \<Rightarrow>
          (case result resp of
             None \<Rightarrow> idls
           | Some text \<Rightarrow>
               if text = [] then idls
               else updateIdListFn u
                      (idls(name \<mapsto> \<lparr>ids = {}, readBytes = Num 0, url = ''bootstrap'',
                                     fileID = ''bootstrap'', creationTime = 0\<rparr>))
                      name text))"

definition syncIdListsFromDataAdapter ::
  "IDListUtil \<Rightarrow> 'spec SpecStore \<Rightarrow> idlists_env \<Rightarrow> sync_result \<times> 'spec SpecStore" where
  "syncIdListsFromDataAdapter u st env =
     (let invalid = \<lparr>synced = False, error = Some StatsigInvalidDataAdapterValuesError\<rparr> in
      case dataAdapter st of
        None \<Rightarrow> (\<lparr>synced = False, error = None\<rparr>, st)
      | Some adapter \<Rightarrow>
          (case adapterGetIDLists env of
             Throws e \<Rightarrow> (\<lparr>synced = False, error = Some e\<rparr>, st)
           | Returns resp \<Rightarrow>
               (case result resp of
                  None \<Rightarrow> (invalid, st)
                | Some listsLookupString \<Rightarrow>
                    if listsLookupString = [] then (invalid, st)
                    else
                      (case parseBootstrapLookup u listsLookupString of
                         None \<Rightarrow> (invalid, st)
                       | Some lookup \<Rightarrow>
                           ((if list_ex (valueMissing env) lookup then invalid
                             else \<lparr>synced = True, error = None\<rparr>),
                            st\<lparr>store := (store st)
                                 \<lparr>idLists := foldl (adapterListStep u env) (idLists (store st)) lookup\<rparr>\<rparr>)))))"

text \<open>\<^verbatim>\<open>_initIDLists()\<close>.\<close>

definition initIDLists :: "IDListUtil \<Rightarrow> 'spec SpecStore \<Rightarrow> idlists_env \<Rightarrow> 'spec SpecStore" where
  "initIDLists u st env =
     (let (r, st1) =
            (if dataAdapter st \<noteq> None then syncIdListsFromDataAdapter u st env
             else syncIdListsFromNetwork u st env)
      in if error r \<noteq> None \<and> dataAdapter st1 \<noteq> None
         then snd (syncIdListsFromNetwork u st1 env)
         else st1)"

text \<open>\<^verbatim>\<open>_syncIdLists()\<close>.\<close>

definition syncIdLists :: "IDListUtil \<Rightarrow> 'spec SpecStore \<Rightarrow> idlists_env \<Rightarrow> 'spec SpecStore" where
  "syncIdLists u st env =
     (if initStrategyForIDLists st = ''none'' then st
      else
        (let fromAdapter = shouldSyncFromAdapter st IDLists;
             (r0, st0) =
               (if fromAdapter then syncIdListsFromDataAdapter u st env
                else syncIdListsFromNetwork u st env);
             (r, st1) =
               (if fromAdapter \<and> error r0 \<noteq> None then syncIdListsFromNetwork u st0 env
                else (r0, st0))
         in if synced r then st1\<lparr>idListsSyncFailureCount := 0\<rparr>
            else if error r \<noteq> None then
              (let n = Suc (idListsSyncFailureCount st1) in
               if int n * idListsSyncInterval st1 > SYNC_OUTDATED_MAX
               then st1\<lparr>idListsSyncFailureCount := 0\<rparr>
               else st1\<lparr>idListsSyncFailureCount := n\<rparr>)
            else st1))"

section \<open>Initialisation and the operations of the store\<close>

text \<open>\<^verbatim>\<open>setInitialUpdateTime()\<close>.\<close>

definition setInitialUpdateTime :: "'spec SpecStore \<Rightarrow> 'spec SpecStore" where
  "setInitialUpdateTime st =
     st\<lparr>initialUpdateTime := (if lastUpdateTime st = JNum 0 then JNum (- 1) else lastUpdateTime st)\<rparr>"

text \<open>
  The bootstrap step of \<^verbatim>\<open>init()\<close>: parse, process, and take the reason
  \<^verbatim>\<open>Bootstrap\<close> when \<^verbatim>\<open>lastUpdateTime\<close> is not 0 afterwards; an exception of either
  is caught and logged.
\<close>

definition bootstrap :: "'spec deps \<Rightarrow> 'spec SpecStore \<Rightarrow> 'spec SpecStore" where
  "bootstrap d st =
     (case bootstrapValues st of
        None \<Rightarrow> st
      | Some text \<Rightarrow>
          if initReason st = ''Uninitialized'' then
            (case JSON_parse d text of
               None \<Rightarrow> st
             | Some specsJSON \<Rightarrow>
                 (case process d st specsJSON of
                    (Throws e, st1) \<Rightarrow> st1
                  | (Returns r, st1) \<Rightarrow>
                      if lastUpdateTime st1 \<noteq> JNum 0 then st1\<lparr>initReason := ''Bootstrap''\<rparr>
                      else st1))
          else st)"

text \<open>
  What the outside world answers during \<^verbatim>\<open>init()\<close>: what the adapter's
  \<^verbatim>\<open>initialize\<close> threw (if it did), the answers to the ruleset fetches and to the
  ID-list sync, and the readings of the clock in \<^verbatim>\<open>pollForUpdates\<close>.
\<close>

record init_env =
  adapterInitialize :: "thrown option"
  rulesets :: rulesets_env
  idlists :: idlists_env
  nowRulesets :: int
  nowIdLists :: int

text \<open>
  \<^verbatim>\<open>init()\<close>. With the strategy \<^verbatim>\<open>lazy\<close> the ID lists are initialised by a task of
  their own, later; it is the operation \<open>LazyInitIDLists\<close> below.
\<close>

definition init :: "'spec deps \<Rightarrow> IDListUtil \<Rightarrow> 'spec SpecStore \<Rightarrow> init_env \<Rightarrow> unit completion \<times> 'spec SpecStore" where
  "init d u st env =
     (case (dataAdapter st, adapterInitialize env) of
        (Some adapter, Some e) \<Rightarrow> (Throws e, st)
      | other \<Rightarrow>
          (let st1 =
                 (if dataAdapter st \<noteq> None
                  then snd (fetchConfigSpecsFromAdapter d st (adapterGetRulesets (rulesets env)))
                  else st);
               st2 = bootstrap d st1;
               st3 =
                 (if initReason st2 = ''Uninitialized''
                  then snd (fetchConfigSpecsFromServer d st2 (download (rulesets env))
                              (rulesUpdatedCallback (rulesets env)))
                  else st2);
               st4 = setInitialUpdateTime st3;
               st5 =
                 (if initStrategyForIDLists st4 = ''lazy'' then st4
                  else if initStrategyForIDLists st4 \<noteq> ''none'' then initIDLists u st4 (idlists env)
                  else st4);
               st6 = pollForUpdates st5 (nowRulesets env) (nowIdLists env)
           in (Returns (), st6\<lparr>initialized := True\<rparr>)))"

text \<open>\<^verbatim>\<open>shutdown()\<close>; the adapter's own \<^verbatim>\<open>shutdown\<close> touches no field of the store.\<close>

definition shutdown :: "'spec SpecStore \<Rightarrow> 'spec SpecStore" where
  "shutdown st = clearTimers st"

text \<open>
  The operations that run on a store once it is constructed: \<^verbatim>\<open>init()\<close>, the lazy
  initialisation of the ID lists, a tick of either polling loop (the closure
  \<^verbatim>\<open>pollForUpdates\<close> stored, which first notes the time), the watchdog, and
  \<^verbatim>\<open>shutdown()\<close>. The getters change nothing. Each operation runs to its end before
  the next starts; interleavings at the \<^verbatim>\<open>await\<close>s are not modelled.
\<close>

datatype operation =
    Init init_env
  | LazyInitIDLists idlists_env
  | RulesetsTick int rulesets_env
  | IdListsTick int idlists_env
  | ResetSyncTimerIfExited reset_clock
  | Shutdown

fun step :: "'spec deps \<Rightarrow> IDListUtil \<Rightarrow> 'spec SpecStore \<Rightarrow> operation \<Rightarrow> 'spec SpecStore" where
  "step d u st (Init env) = snd (init d u st env)"
| "step d u st (LazyInitIDLists env) = initIDLists u st env"
| "step d u st (RulesetsTick now env) =
     syncConfigSpecs d (st\<lparr>rulesetsSyncTimerLastActiveTime := now\<rparr>) env"
| "step d u st (IdListsTick now env) =
     syncIdLists u (st\<lparr>idListsSyncTimerLastActiveTime := now\<rparr>) env"
| "step d u st (ResetSyncTimerIfExited clk) = snd (resetSyncTimerIfExited st clk)"
| "step d u st Shutdown = shutdown st"

fun run :: "'spec deps \<Rightarrow> IDListUtil \<Rightarrow> 'spec SpecStore \<Rightarrow> operation list \<Rightarrow> 'spec SpecStore" where
  "run d u st [] = st"
| "run d u st (op # ops) = run d u (step d u st op) ops"

text \<open>The four values \<^verbatim>\<open>initReason\<close> is ever given.\<close>

definition initReasons :: "string set" where
  "initReasons = {''Uninitialized'', ''Network'', ''Bootstrap'', ''DataAdapter''}"

text \<open>
  A payload \<^verbatim>\<open>_process\<close> returns success on: one without updates, or one that is not
  malformed and whose \<^verbatim>\<open>layers\<close> can be reversed. A source of rulesets succeeds when
  its text parses to such a payload.
\<close>

definition accepts :: "'spec deps \<Rightarrow> json \<Rightarrow> bool" where
  "accepts d p =
     (if falsy (getProp p ''has_updates'') then True
      else if malformed d p then False
      else reverseLayerExperimentMapping d (getProp p ''layers'') \<noteq> None)"

definition processedOk :: "'spec deps \<Rightarrow> string \<Rightarrow> bool" where
  "processedOk d text = (case JSON_parse d text of None \<Rightarrow> False | Some specsJSON \<Rightarrow> accepts d specsJSON)"

definition networkSucceeds :: "'spec deps \<Rightarrow> rulesets_env \<Rightarrow> bool" where
  "networkSucceeds d env =
     (case download env of Throws e \<Rightarrow> False | Returns text \<Rightarrow> processedOk d text)"

definition adapterSucceeds :: "'spec deps \<Rightarrow> 'spec SpecStore \<Rightarrow> rulesets_env \<Rightarrow> bool" where
  "adapterSucceeds d st env =
     (case dataAdapter st of
        None \<Rightarrow> False
      | Some adapter \<Rightarrow>
          (case adapterGetRulesets env of
             Throws e \<Rightarrow> False
           | Returns resp \<Rightarrow>
               (case result resp of
                  None \<Rightarrow> False
                | Some text \<Rightarrow> text \<noteq> [] \<and> adapterError resp = None \<and> processedOk d text)))"

text \<open>
  The bootstrap values succeed when they parse, \<^verbatim>\<open>_process\<close> does not throw on them
  and \<^verbatim>\<open>lastUpdateTime\<close> is not 0 afterwards.
\<close>

definition bootstrapSucceeds :: "'spec deps \<Rightarrow> 'spec SpecStore \<Rightarrow> bool" where
  "bootstrapSucceeds d st =
     (case bootstrapValues st of
        None \<Rightarrow> False
      | Some text \<Rightarrow>
          (case JSON_parse d text of
             None \<Rightarrow> False
           | Some specsJSON \<Rightarrow>
               (case process d st specsJSON of
                  (Throws e, st1) \<Rightarrow> False
                | (Returns r, st1) \<Rightarrow> lastUpdateTime st1 \<noteq> JNum 0)))"

text \<open>
  The reason \<^verbatim>\<open>init()\<close> leaves on a store that was uninitialised, the first source
  that succeeds, in the order adapter, bootstrap, network; and the reason a tick of
  the ruleset loop leaves, the source of that tick where it succeeds.
\<close>

definition initSource :: "'spec deps \<Rightarrow> 'spec SpecStore \<Rightarrow> init_env \<Rightarrow> string" where
  "initSource d st env =
     (if dataAdapter st \<noteq> None \<and> adapterInitialize env \<noteq> None then ''Uninitialized''
      else if adapterSucceeds d st (rulesets env) then ''DataAdapter''
      else if bootstrapSucceeds d st then ''Bootstrap''
      else if networkSucceeds d (rulesets env) then ''Network''
      else ''Uninitialized'')"

definition syncSource :: "'spec deps \<Rightarrow> 'spec SpecStore \<Rightarrow> rulesets_env \<Rightarrow> string" where
  "syncSource d st env =
     (if shouldSyncFromAdapter st Rulesets then
        (if adapterSucceeds d st env then ''DataAdapter'' else initReason st)
      else
        (if networkSucceeds d env then ''Network'' else initReason st))"

fun isInit :: "operation \<Rightarrow> bool" where
  "isInit (Init env) = True"
| "isInit op = False"

fun isRulesetsTick :: "operation \<Rightarrow> bool" where
  "isRulesetsTick (RulesetsTick now env) = True"
| "isRulesetsTick op = False"

section \<open>The rule evaluator\<close>










section \<open>Instances for concrete evaluation\<close>

text \<open>
  An instance of the imports in which a spec is reduced to its name: the constructor
  throws unless the \<^verbatim>\<open>name\<close> is a string. It serves the evaluations on concrete inputs.
\<close>

definition nameOnlyDeps :: "string deps" where
  "nameOnlyDeps =
     \<lparr>ConfigSpec_new = (\<lambda>j. case getProp j ''name'' of Some (JStr n) \<Rightarrow> Some n | other \<Rightarrow> None),
      ConfigSpec_name = (\<lambda>n. n),
      MAX_SAMPLING_RATE = 10000,
      toPropertyKey = (\<lambda>v. ''[object Object]''),
      JSON_parse = (\<lambda>s. None)\<rparr>"

definition exampleOptions :: ExplicitStatsigOptions where
  "exampleOptions =
     \<lparr>rulesetsSyncIntervalMs = 10000,
      idListsSyncIntervalMs = 60000,
      dataAdapter = None,
      bootstrapValues = None,
      initStrategyForIDLists = ''await''\<rparr>"

text \<open>
  A payload with updates, the given time and no specs: whatever the constructor,
  \<^verbatim>\<open>_process\<close> has nothing to reject in it.
\<close>

definition payloadAt :: "rat \<Rightarrow> json" where
  "payloadAt t =
     JObj [(''has_updates'', JBool True), (''time'', JNum t),
           (''feature_gates'', JArr []),
           (''dynamic_configs'', JArr []),
           (''layer_configs'', JArr [])]"

text \<open>
  A store whose two timers were started at time 0 (handles 0 and 1) and whose ID-list
  loop last ticked at 100000 ms; a clock that reads the same instant throughout a call.
\<close>

definition startedStore :: "string SpecStore" where
  "startedStore =
     (pollForUpdates (newSpecStore nameOnlyDeps exampleOptions 0 0) 0 0)
       \<lparr>idListsSyncTimerLastActiveTime := 100000\<rparr>"

definition clockAt :: "int \<Rightarrow> reset_clock" where
  "clockAt t =
     \<lparr>nowRulesetsCheck = t, nowIdListsCheck = t, nowRulesetsMessage = t,
      nowIdListsMessage = t, nowRulesetsPoll = t, nowIdListsPoll = t\<rparr>"

text \<open>A store that holds one ID list, of which 100 bytes have been read.\<close>

definition listedStore :: "string SpecStore" where
  "listedStore =
     (newSpecStore nameOnlyDeps exampleOptions 0 0)
       \<lparr>store := (store (newSpecStore nameOnlyDeps exampleOptions 0 0))
          \<lparr>idLists := [''list_1'' \<mapsto>
             \<lparr>ids = {}, readBytes = Num 100, url = ''https://cdn/list_1'', fileID = ''file_1'',
              creationTime = 1\<rparr>]\<rparr>\<rparr>"

text \<open>
  A store with a data adapter that supports polling for rulesets and no ID lists to
  initialise; imports that parse one text, the payload of time 10; helpers of
  \<^verbatim>\<open>IDListUtil\<close> (of which \<^verbatim>\<open>removeOldIdLists\<close> drops the lists that are absent
  from the lookup) and an outside world in which no ID list is served.
\<close>

definition adapterOptions :: ExplicitStatsigOptions where
  "adapterOptions =
     \<lparr>rulesetsSyncIntervalMs = 10000,
      idListsSyncIntervalMs = 60000,
      dataAdapter = Some \<lparr>supportsPollingUpdatesFor = Some (\<lambda>key. key = Rulesets)\<rparr>,
      bootstrapValues = None,
      initStrategyForIDLists = ''none''\<rparr>"

definition specsText :: string where
  "specsText = ''{has_updates: true, time: 10, feature_gates: [], dynamic_configs: [], layer_configs: []}''"

definition parsingDeps :: "string deps" where
  "parsingDeps =
     nameOnlyDeps\<lparr>JSON_parse := (\<lambda>s. if s = specsText then Some (payloadAt 10) else None)\<rparr>"

definition exampleUtil :: IDListUtil where
  "exampleUtil =
     \<lparr>parseLookupResponse = (\<lambda>js. None),
      parseBootstrapLookup = (\<lambda>s. None),
      updateIdListFn = updateIdList,
      removeOldIdLists = (\<lambda>idls lookup name. if name \<in> set (map fst lookup) then idls name else None)\<rparr>"

definition noIdLists :: idlists_env where
  "noIdLists =
     \<lparr>adapterGetIDLists = Returns \<lparr>result = None, adapterError = None\<rparr>,
      adapterGetIDList = (\<lambda>name. Returns \<lparr>result = None, adapterError = None\<rparr>),
      getIDLists = Returns None,
      rangedResponse = (\<lambda>name. NoResponse),
      saveToDataAdapter = None\<rparr>"

text \<open>The adapter has no rulesets and the network serves the payload; and the reverse.\<close>

definition networkServes :: rulesets_env where
  "networkServes =
     \<lparr>adapterGetRulesets = Returns \<lparr>result = None, adapterError = None\<rparr>,
      download = Returns specsText,
      rulesUpdatedCallback = NoCallback\<rparr>"

definition adapterServes :: rulesets_env where
  "adapterServes =
     \<lparr>adapterGetRulesets = Returns \<lparr>result = Some specsText, adapterError = None\<rparr>,
      download = Throws (ErrorObject OtherError ''Error'' []),
      rulesUpdatedCallback = NoCallback\<rparr>"

definition initFromNetwork :: init_env where
  "initFromNetwork =
     \<lparr>adapterInitialize = None, rulesets = networkServes, idlists = noIdLists,
      nowRulesets = 0, nowIdLists = 0\<rparr>"



section \<open>Properties of snapshot replacement\<close>

lemma buildSpecs_None_iff:
  "buildSpecs d xs acc = None \<longleftrightarrow> list_ex (\<lambda>j. ConfigSpec_new d j = None) xs"
  by (induction xs arbitrary: acc) (auto split: option.splits)

lemma safeSet_cases:
  "safeSet mx r key x =
     (case x of
        Some (JNum v) \<Rightarrow> setRate key (if v < 0 then 0 else if v > mx then mx else v) r
      | other \<Rightarrow> r)"
  by (cases "(mx, r, key, x)" rule: safeSet.cases) auto

lemma getRate_setRate: "getRate k (setRate k' v r) = (if k = k' then v else getRate k r)"
  by (cases k; cases k') (simp_all add: getRate_def setRate_def)

lemma getRate_safeSet:
  "0 \<le> mx \<Longrightarrow> getRate k (safeSet mx r k' x) =
     (if k = k' then (case x of Some (JNum v) \<Rightarrow> max 0 (min mx v) | other \<Rightarrow> getRate k r)
      else getRate k r)"
  by (auto simp: safeSet_cases getRate_setRate split: option.splits json.splits)

lemma getRate_updateSamplingRates:
  assumes "0 \<le> mx"
  shows "getRate k (updateSamplingRates mx r obj) =
     (case payloadRate obj k of Some v \<Rightarrow> max 0 (min mx v) | None \<Rightarrow> getRate k r)"
proof (cases obj)
  case None
  then show ?thesis by (simp add: updateSamplingRates_def payloadRate_def)
next
  case (Some v)
  show ?thesis
  proof (cases v)
    case (JObj kvs)
    with Some assms show ?thesis
      by (cases k)
        (simp_all add: updateSamplingRates_def payloadRate_def keyName_def Let_def getRate_safeSet
          split: option.splits json.splits)
  next
    case (JArr xs)
    with Some assms show ?thesis
      by (simp add: updateSamplingRates_def payloadRate_def Let_def)
  qed (use Some in \<open>simp_all add: updateSamplingRates_def payloadRate_def\<close>)
qed

lemma samplingRates_process:
  "\<not> falsy (getProp p ''has_updates'') \<Longrightarrow>
   samplingRates (snd (process d st p)) =
     updateSamplingRates (MAX_SAMPLING_RATE d) (samplingRates st) (getProp p ''diagnostics'')"
  by (simp add: process_def Let_def split: option.splits prod.splits)

lemma process_rejected:
  assumes "\<not> falsy (getProp p ''has_updates'')" and "malformed d p"
  shows "process d st p =
     (Returns \<lparr>success = False, hasUpdates = True\<rparr>,
      st\<lparr>samplingRates := updateSamplingRates (MAX_SAMPLING_RATE d) (samplingRates st)
                             (getProp p ''diagnostics'')\<rparr>)"
proof -
  consider (noarr) "asArray (getProp p ''feature_gates'') = None \<or>
     asArray (getProp p ''dynamic_configs'') = None \<or>
     asArray (getProp p ''layer_configs'') = None"
    | (ctor) gs cs ls where "asArray (getProp p ''feature_gates'') = Some gs"
        "asArray (getProp p ''dynamic_configs'') = Some cs"
        "asArray (getProp p ''layer_configs'') = Some ls"
        "buildSpecs d gs Map.empty = None \<or> buildSpecs d cs Map.empty = None \<or>
         buildSpecs d ls Map.empty = None"
    using assms(2) unfolding malformed_def constructorThrows_def buildSpecs_None_iff
    by (auto split: option.splits)
  then show ?thesis
  proof cases
    case noarr
    with assms(1) show ?thesis
      by (auto simp: process_def Let_def split: option.splits)
  next
    case ctor
    with assms(1) show ?thesis
      by (auto simp: process_def Let_def split: option.splits)
  qed
qed

lemma process_not_succeeded:
  assumes "\<not> falsy (getProp p ''has_updates'')" and "\<not> succeeded (fst (process d st p))"
  shows "snd (process d st p) =
      st\<lparr>samplingRates := updateSamplingRates (MAX_SAMPLING_RATE d) (samplingRates st)
                             (getProp p ''diagnostics'')\<rparr>"
  using assms by (auto simp: process_def Let_def split: option.splits)

lemma process_succeeded_time:
  assumes "\<not> falsy (getProp p ''has_updates'')" and "succeeded (fst (process d st p))"
  shows "lastUpdateTime (snd (process d st p)) = nullish (getProp p ''time'') (lastUpdateTime st)"
  using assms by (auto simp: process_def Let_def split: option.splits)

lemma process_no_updates:
  "falsy (getProp p ''has_updates'') \<Longrightarrow>
   process d st p = (Returns \<lparr>success = True, hasUpdates = False\<rparr>, st)"
  by (simp add: process_def)

lemma process_time_cases:
  "lastUpdateTime (snd (process d st p)) = lastUpdateTime st \<or>
   lastUpdateTime (snd (process d st p)) = nullish (getProp p ''time'') (lastUpdateTime st)"
  by (auto simp: process_def Let_def split: option.splits)

lemma ascending_nonDecreasing:
  "lastUpdateTime st = JNum b \<Longrightarrow> b \<le> a \<Longrightarrow> ascendingTimes a ps \<Longrightarrow>
   nonDecreasing (JNum b # timesOf (applyAll d st ps))"
proof (induction ps arbitrary: st a b)
  case Nil
  then show ?case by (simp add: timesOf_def)
next
  case (Cons p ps)
  let ?st' = "snd (process d st p)"
  from Cons.prems(3) consider
      (keep) "nullish (getProp p ''time'') (lastUpdateTime st) = lastUpdateTime st"
        "ascendingTimes a ps"
    | (num) t where "getProp p ''time'' = Some (JNum t)" "a \<le> t" "ascendingTimes t ps"
    by (auto split: option.splits json.splits)
  then show ?case
  proof cases
    case keep
    with process_time_cases[of d st p] have "lastUpdateTime ?st' = JNum b"
      using Cons.prems(1) by auto
    with Cons.IH[of ?st' b a] Cons.prems(2) keep(2) show ?thesis
      by (simp add: timesOf_def)
  next
    case num
    from process_time_cases[of d st p] num(1) Cons.prems(1)
    consider "lastUpdateTime ?st' = JNum b" | "lastUpdateTime ?st' = JNum t" by auto
    then show ?thesis
    proof cases
      case 1
      with Cons.IH[of ?st' b t] Cons.prems(2) num show ?thesis by (simp add: timesOf_def)
    next
      case 2
      with Cons.IH[of ?st' t t] Cons.prems(2) num show ?thesis by (simp add: timesOf_def)
    qed
  qed
qed

lemmas example_defs =
  process_def nameOnlyDeps_def newSpecStore_def exampleOptions_def payloadAt_def timesOf_def
  reverseLayerExperimentMapping_def updateSamplingRates_def objectEntries_def Let_def

text \<open>
  C1, as the code has it. A payload with truthy \<^verbatim>\<open>has_updates\<close> that is malformed (one
  of \<^verbatim>\<open>feature_gates\<close>, \<^verbatim>\<open>dynamic_configs\<close>, \<^verbatim>\<open>layer_configs\<close> is not an array, or
  the constructor throws on an element) makes \<^verbatim>\<open>_process\<close> return \<^verbatim>\<open>success = false\<close>,
  and gates, configs, layers, experimentToLayer, lastUpdateTime and
  clientSDKKeyToAppMap (every field but the sampling rates) are left as they were; the
  sampling rates are those \<^verbatim>\<open>updateSamplingRates\<close> computed from the payload's
  \<^verbatim>\<open>diagnostics\<close>, which runs before the payload is validated.
\<close>

theorem process_malformed_preserves_snapshot:
  assumes "\<not> falsy (getProp p ''has_updates'')" and "malformed d p"
  shows "fst (process d st p) = Returns \<lparr>success = False, hasUpdates = True\<rparr> \<and>
         store (snd (process d st p)) = store st \<and>
         lastUpdateTime (snd (process d st p)) = lastUpdateTime st \<and>
         clientSDKKeyToAppMap (snd (process d st p)) = clientSDKKeyToAppMap st \<and>
         snd (process d st p) =
           st\<lparr>samplingRates := updateSamplingRates (MAX_SAMPLING_RATE d) (samplingRates st)
                                  (getProp p ''diagnostics'')\<rparr>"
  by (simp add: process_rejected[OF assms])

theorem process_malformed_preserves_snapshot_witness:
  "\<not> falsy (getProp (JObj [(''has_updates'', JBool True), (''time'', JNum 7),
                            (''feature_gates'', JArr [JObj [(''salt'', JStr ''na'')]]),
                            (''dynamic_configs'', JArr []),
                            (''layer_configs'', JArr [])]) ''has_updates'') \<and>
   malformed nameOnlyDeps (JObj [(''has_updates'', JBool True), (''time'', JNum 7),
                            (''feature_gates'', JArr [JObj [(''salt'', JStr ''na'')]]),
                            (''dynamic_configs'', JArr []),
                            (''layer_configs'', JArr [])]) \<and>
   fst (process nameOnlyDeps (newSpecStore nameOnlyDeps exampleOptions 0 0)
          (JObj [(''has_updates'', JBool True), (''time'', JNum 7),
                 (''feature_gates'', JArr [JObj [(''salt'', JStr ''na'')]]),
                 (''dynamic_configs'', JArr []),
                 (''layer_configs'', JArr [])])) = Returns \<lparr>success = False, hasUpdates = True\<rparr> \<and>
   lastUpdateTime (snd (process nameOnlyDeps (newSpecStore nameOnlyDeps exampleOptions 0 0)
          (JObj [(''has_updates'', JBool True), (''time'', JNum 7),
                 (''feature_gates'', JArr [JObj [(''salt'', JStr ''na'')]]),
                 (''dynamic_configs'', JArr []),
                 (''layer_configs'', JArr [])]))) = JNum 0"
  using process_malformed_preserves_snapshot
    [of "JObj [(''has_updates'', JBool True), (''time'', JNum 7),
               (''feature_gates'', JArr [JObj [(''salt'', JStr ''na'')]]),
               (''dynamic_configs'', JArr []),
               (''layer_configs'', JArr [])]"
        nameOnlyDeps "newSpecStore nameOnlyDeps exampleOptions 0 0"]
  by (simp add: malformed_def constructorThrows_def nameOnlyDeps_def newSpecStore_def)

text \<open>
  C1 as stated fails: the payload \<^verbatim>\<open>{has_updates: true, diagnostics: {dcs: 5}}\<close> has none
  of the three arrays, \<^verbatim>\<open>_process\<close> rejects it, and the sampling rate \<^verbatim>\<open>dcs\<close> of the
  new store has gone from 0 to 5.
\<close>

theorem process_malformed_changes_samplingRates:
  "malformed nameOnlyDeps (JObj [(''has_updates'', JBool True), (''diagnostics'', JObj [(''dcs'', JNum 5)])]) \<and>
   fst (process nameOnlyDeps (newSpecStore nameOnlyDeps exampleOptions 0 0)
          (JObj [(''has_updates'', JBool True), (''diagnostics'', JObj [(''dcs'', JNum 5)])]))
     = Returns \<lparr>success = False, hasUpdates = True\<rparr> \<and>
   dcs (samplingRates (newSpecStore nameOnlyDeps exampleOptions 0 0)) = 0 \<and>
   dcs (samplingRates (snd (process nameOnlyDeps (newSpecStore nameOnlyDeps exampleOptions 0 0)
          (JObj [(''has_updates'', JBool True), (''diagnostics'', JObj [(''dcs'', JNum 5)])])))) = 5"
  by (simp add: example_defs malformed_def setRate_def)

text \<open>
  C2. When a payload with truthy \<^verbatim>\<open>has_updates\<close> carries a number as its \<^verbatim>\<open>time\<close>
  and \<^verbatim>\<open>_process\<close> returns success, \<^verbatim>\<open>lastUpdateTime\<close> is that number afterwards;
  when \<^verbatim>\<open>has_updates\<close> is falsy, \<^verbatim>\<open>_process\<close> returns success (with
  \<^verbatim>\<open>hasUpdates = false\<close>) and the state is the one it was given.
\<close>

theorem process_sets_lastUpdateTime:
  "(\<not> falsy (getProp p ''has_updates'') \<longrightarrow> getProp p ''time'' = Some (JNum t) \<longrightarrow>
      succeeded (fst (process d st p)) \<longrightarrow> lastUpdateTime (snd (process d st p)) = JNum t) \<and>
   (falsy (getProp p ''has_updates'') \<longrightarrow>
      process d st p = (Returns \<lparr>success = True, hasUpdates = False\<rparr>, st))"
  by (auto simp: process_succeeded_time process_no_updates)

theorem process_sets_lastUpdateTime_witness:
  "\<not> falsy (getProp (payloadAt 10) ''has_updates'') \<and>
   getProp (payloadAt 10) ''time'' = Some (JNum 10) \<and>
   succeeded (fst (process nameOnlyDeps (newSpecStore nameOnlyDeps exampleOptions 0 0) (payloadAt 10))) \<and>
   lastUpdateTime (snd (process nameOnlyDeps (newSpecStore nameOnlyDeps exampleOptions 0 0) (payloadAt 10))) = JNum 10 \<and>
   falsy (getProp (JObj [(''has_updates'', JBool False), (''time'', JNum 7)]) ''has_updates'') \<and>
   process nameOnlyDeps (newSpecStore nameOnlyDeps exampleOptions 0 0)
       (JObj [(''has_updates'', JBool False), (''time'', JNum 7)])
     = (Returns \<lparr>success = True, hasUpdates = False\<rparr>, newSpecStore nameOnlyDeps exampleOptions 0 0)"
  using process_sets_lastUpdateTime[of "payloadAt 10" 10 nameOnlyDeps "newSpecStore nameOnlyDeps exampleOptions 0 0"]
    process_sets_lastUpdateTime[of "JObj [(''has_updates'', JBool False), (''time'', JNum 7)]" 7
      nameOnlyDeps "newSpecStore nameOnlyDeps exampleOptions 0 0"]
  by (simp add: example_defs)

text \<open>
  C3, as the code has it. \<^verbatim>\<open>_process\<close> assigns the payload's \<^verbatim>\<open>time\<close> without
  comparing it with the stored value, so \<^verbatim>\<open>lastUpdateTime\<close> is non-decreasing across
  a sequence of applications when the payloads' times are: each \<^verbatim>\<open>time\<close> is absent,
  null, or a number that is not below the current \<^verbatim>\<open>lastUpdateTime\<close> nor below the
  time of an earlier payload of the sequence.
\<close>

theorem lastUpdateTime_nondecreasing_for_ascending_times:
  assumes "lastUpdateTime st = JNum a" and "ascendingTimes a ps"
  shows "nonDecreasing (lastUpdateTime st # timesOf (applyAll d st ps))"
  using ascending_nonDecreasing[OF assms(1) order_refl assms(2), of d] assms(1) by simp

theorem lastUpdateTime_nondecreasing_for_ascending_times_witness:
  "lastUpdateTime (newSpecStore nameOnlyDeps exampleOptions 0 0) = JNum 0 \<and>
   ascendingTimes 0 [payloadAt 5, payloadAt 10] \<and>
   nonDecreasing (lastUpdateTime (newSpecStore nameOnlyDeps exampleOptions 0 0) #
     timesOf (applyAll nameOnlyDeps (newSpecStore nameOnlyDeps exampleOptions 0 0) [payloadAt 5, payloadAt 10]))"
  using lastUpdateTime_nondecreasing_for_ascending_times
    [of "newSpecStore nameOnlyDeps exampleOptions 0 0" 0 "[payloadAt 5, payloadAt 10]" nameOnlyDeps]
  by (simp add: newSpecStore_def payloadAt_def)

text \<open>
  C3 as stated fails: two applications in a row succeed, the first with time 10 and the
  second with time 5, and \<^verbatim>\<open>lastUpdateTime\<close> goes 0, 10, 5.
\<close>

theorem lastUpdateTime_decreases:
  "list_all (\<lambda>r. succeeded (fst r))
     (applyAll nameOnlyDeps (newSpecStore nameOnlyDeps exampleOptions 0 0) [payloadAt 10, payloadAt 5]) \<and>
   lastUpdateTime (newSpecStore nameOnlyDeps exampleOptions 0 0) #
     timesOf (applyAll nameOnlyDeps (newSpecStore nameOnlyDeps exampleOptions 0 0) [payloadAt 10, payloadAt 5])
     = [JNum 0, JNum 10, JNum 5] \<and>
   \<not> nonDecreasing (lastUpdateTime (newSpecStore nameOnlyDeps exampleOptions 0 0) #
     timesOf (applyAll nameOnlyDeps (newSpecStore nameOnlyDeps exampleOptions 0 0) [payloadAt 10, payloadAt 5]))"
  by (simp add: example_defs)

text \<open>
  C10. On a call of \<^verbatim>\<open>_process\<close> with truthy \<^verbatim>\<open>has_updates\<close>, whatever its outcome,
  each of the four sampling rates ends as the number the payload's \<^verbatim>\<open>diagnostics\<close>
  object carries for it clamped to \<open>[0, MAX_SAMPLING_RATE]\<close>, and is left alone when
  there is no such number; and when the call does not succeed, the sampling rates are
  all that has changed.
\<close>

theorem process_updates_samplingRates:
  assumes "\<not> falsy (getProp p ''has_updates'')" and "0 \<le> MAX_SAMPLING_RATE d"
  shows "(\<forall>k. getRate k (samplingRates (snd (process d st p))) =
            (case payloadRate (getProp p ''diagnostics'') k of
               Some v \<Rightarrow> max 0 (min (MAX_SAMPLING_RATE d) v)
             | None \<Rightarrow> getRate k (samplingRates st))) \<and>
         (\<not> succeeded (fst (process d st p)) \<longrightarrow>
            (snd (process d st p))\<lparr>samplingRates := samplingRates st\<rparr> = st)"
  using assms
  by (simp add: samplingRates_process getRate_updateSamplingRates process_not_succeeded)

theorem process_updates_samplingRates_witness:
  "\<not> falsy (getProp (JObj [(''has_updates'', JBool True),
       (''diagnostics'', JObj [(''dcs'', JNum 5), (''log'', JNum (-3)), (''idlist'', JNum 20000),
                               (''initialize'', JStr ''all'')])]) ''has_updates'') \<and>
   0 \<le> MAX_SAMPLING_RATE nameOnlyDeps \<and>
   \<not> succeeded (fst (process nameOnlyDeps (newSpecStore nameOnlyDeps exampleOptions 0 0)
       (JObj [(''has_updates'', JBool True),
         (''diagnostics'', JObj [(''dcs'', JNum 5), (''log'', JNum (-3)), (''idlist'', JNum 20000),
                                 (''initialize'', JStr ''all'')])]))) \<and>
   samplingRates (snd (process nameOnlyDeps (newSpecStore nameOnlyDeps exampleOptions 0 0)
       (JObj [(''has_updates'', JBool True),
         (''diagnostics'', JObj [(''dcs'', JNum 5), (''log'', JNum (-3)), (''idlist'', JNum 20000),
                                 (''initialize'', JStr ''all'')])])))
     = \<lparr>dcs = 5, logRate = 0, idlist = 10000, initialize = 10000\<rparr>"
  using process_updates_samplingRates
    [of "JObj [(''has_updates'', JBool True),
         (''diagnostics'', JObj [(''dcs'', JNum 5), (''log'', JNum (-3)), (''idlist'', JNum 20000),
                                 (''initialize'', JStr ''all'')])]"
        nameOnlyDeps "newSpecStore nameOnlyDeps exampleOptions 0 0"]
  by (simp add: example_defs setRate_def)

section \<open>Properties of the watchdog\<close>

lemma inactive_iff:
  "rulesetsSyncTimerLastActiveTime st
      < nowRulesetsCheck clk - max SYNC_OUTDATED_MAX (rulesetsSyncInterval st) \<longleftrightarrow> \<not> rulesetsAlive st clk"
  "idListsSyncTimerLastActiveTime st
      < nowIdListsCheck clk - max SYNC_OUTDATED_MAX (idListsSyncInterval st) \<longleftrightarrow> \<not> idListsAlive st clk"
  by (auto simp: rulesetsAlive_def idListsAlive_def withinBound_def SYNC_OUTDATED_MAX_def)

lemma clearRulesetsSyncTimer_idListsLastActive:
  "idListsSyncTimerLastActiveTime (clearRulesetsSyncTimer st) = idListsSyncTimerLastActiveTime st"
  by (simp add: clearRulesetsSyncTimer_def split: option.splits)

lemma reset_unfold:
  "resetSyncTimerIfExited st clk =
     (if rulesetsAlive st clk \<and> idListsAlive st clk then (None, st)
      else
        (Some ((if rulesetsAlive st clk then []
                else rulesetsMessage (rulesetsSyncTimerLastActiveTime st) (nowRulesetsMessage clk)) @
               (if idListsAlive st clk then []
                else idListsMessage (idListsSyncTimerLastActiveTime st) (nowIdListsMessage clk))),
         pollForUpdates
           ((if idListsAlive st clk then id else clearIdListsSyncTimer)
              ((if rulesetsAlive st clk then id else clearRulesetsSyncTimer) st))
           (nowRulesetsPoll clk) (nowIdListsPoll clk)))"
  unfolding resetSyncTimerIfExited_def inactive_iff Let_def
  by (simp add: clearRulesetsSyncTimer_idListsLastActive)

lemma reset_null_iff:
  "fst (resetSyncTimerIfExited st clk) = None \<longleftrightarrow> rulesetsAlive st clk \<and> idListsAlive st clk"
  by (simp add: reset_unfold)

lemma pollForUpdates_fields:
  "rulesetsSyncTimer (pollForUpdates st a b) =
     (case rulesetsSyncTimer st of None \<Rightarrow> Some (timersCreated st) | Some t \<Rightarrow> Some t)"
  "rulesetsSyncTimerLastActiveTime (pollForUpdates st a b) =
     (case rulesetsSyncTimer st of None \<Rightarrow> a | Some t \<Rightarrow> rulesetsSyncTimerLastActiveTime st)"
  "idListsSyncTimer (pollForUpdates st a b) =
     (case idListsSyncTimer st of
        None \<Rightarrow> Some (case rulesetsSyncTimer st of None \<Rightarrow> Suc (timersCreated st) | Some t \<Rightarrow> timersCreated st)
      | Some t \<Rightarrow> Some t)"
  "idListsSyncTimerLastActiveTime (pollForUpdates st a b) =
     (case idListsSyncTimer st of None \<Rightarrow> b | Some t \<Rightarrow> idListsSyncTimerLastActiveTime st)"
  "clearedTimers (pollForUpdates st a b) = clearedTimers st"
  by (simp_all add: pollForUpdates_def poll_def Let_def split: option.splits)

lemma clear_fields:
  "rulesetsSyncTimer (clearRulesetsSyncTimer st) = None"
  "idListsSyncTimer (clearRulesetsSyncTimer st) = idListsSyncTimer st"
  "timersCreated (clearRulesetsSyncTimer st) = timersCreated st"
  "rulesetsSyncTimerLastActiveTime (clearRulesetsSyncTimer st) = rulesetsSyncTimerLastActiveTime st"
  "clearedTimers (clearRulesetsSyncTimer st) =
     clearedTimers st @ (case rulesetsSyncTimer st of None \<Rightarrow> [] | Some t \<Rightarrow> [t])"
  "idListsSyncTimer (clearIdListsSyncTimer st) = None"
  "rulesetsSyncTimer (clearIdListsSyncTimer st) = rulesetsSyncTimer st"
  "timersCreated (clearIdListsSyncTimer st) = timersCreated st"
  "rulesetsSyncTimerLastActiveTime (clearIdListsSyncTimer st) = rulesetsSyncTimerLastActiveTime st"
  "idListsSyncTimerLastActiveTime (clearIdListsSyncTimer st) = idListsSyncTimerLastActiveTime st"
  "clearedTimers (clearIdListsSyncTimer st) =
     clearedTimers st @ (case idListsSyncTimer st of None \<Rightarrow> [] | Some t \<Rightarrow> [t])"
  by (simp_all add: clearRulesetsSyncTimer_def clearIdListsSyncTimer_def split: option.splits)

lemma reset_dead:
  assumes "\<not> (rulesetsAlive st clk \<and> idListsAlive st clk)"
  shows "clearedTimers (snd (resetSyncTimerIfExited st clk)) = clearedTimers st @ deadHandles st clk"
    and "rulesetsSyncTimer (snd (resetSyncTimerIfExited st clk)) =
           (if rulesetsAlive st clk \<and> rulesetsSyncTimer st \<noteq> None then rulesetsSyncTimer st
            else Some (timersCreated st))"
    and "rulesetsSyncTimerLastActiveTime (snd (resetSyncTimerIfExited st clk)) =
           (if rulesetsAlive st clk \<and> rulesetsSyncTimer st \<noteq> None then rulesetsSyncTimerLastActiveTime st
            else nowRulesetsPoll clk)"
    and "idListsSyncTimer (snd (resetSyncTimerIfExited st clk)) =
           (if idListsAlive st clk \<and> idListsSyncTimer st \<noteq> None then idListsSyncTimer st
            else Some (if rulesetsAlive st clk \<and> rulesetsSyncTimer st \<noteq> None then timersCreated st
                       else Suc (timersCreated st)))"
    and "idListsSyncTimerLastActiveTime (snd (resetSyncTimerIfExited st clk)) =
           (if idListsAlive st clk \<and> idListsSyncTimer st \<noteq> None then idListsSyncTimerLastActiveTime st
            else nowIdListsPoll clk)"
  using assms
  by (auto simp: reset_unfold pollForUpdates_fields clear_fields clearRulesetsSyncTimer_idListsLastActive deadHandles_def split: option.splits)

text \<open>
  C9, as the code has it. \<^verbatim>\<open>resetSyncTimerIfExited()\<close> returns null exactly when both
  loops' last-active timestamps are within \<open>max(120000 ms, period)\<close> of now, and then
  changes nothing. Otherwise it returns an error whose message names each dead timer,
  clears every dead timer, and starts a new timer, with a fresh last-active timestamp,
  for each loop that then has none; a loop whose timer is live and running keeps that
  timer and its timestamp, it is not rescheduled.
\<close>

theorem resetSyncTimerIfExited_watchdog:
  "(fst (resetSyncTimerIfExited st clk) = None) = (rulesetsAlive st clk \<and> idListsAlive st clk) \<and>
   (rulesetsAlive st clk \<and> idListsAlive st clk \<longrightarrow> snd (resetSyncTimerIfExited st clk) = st) \<and>
   (\<not> (rulesetsAlive st clk \<and> idListsAlive st clk) \<longrightarrow>
      fst (resetSyncTimerIfExited st clk) =
        Some ((if rulesetsAlive st clk then []
               else rulesetsMessage (rulesetsSyncTimerLastActiveTime st) (nowRulesetsMessage clk)) @
              (if idListsAlive st clk then []
               else idListsMessage (idListsSyncTimerLastActiveTime st) (nowIdListsMessage clk))) \<and>
      clearedTimers (snd (resetSyncTimerIfExited st clk)) = clearedTimers st @ deadHandles st clk \<and>
      rulesetsSyncTimer (snd (resetSyncTimerIfExited st clk)) =
        (if rulesetsAlive st clk \<and> rulesetsSyncTimer st \<noteq> None then rulesetsSyncTimer st
         else Some (timersCreated st)) \<and>
      rulesetsSyncTimerLastActiveTime (snd (resetSyncTimerIfExited st clk)) =
        (if rulesetsAlive st clk \<and> rulesetsSyncTimer st \<noteq> None
         then rulesetsSyncTimerLastActiveTime st else nowRulesetsPoll clk) \<and>
      idListsSyncTimer (snd (resetSyncTimerIfExited st clk)) =
        (if idListsAlive st clk \<and> idListsSyncTimer st \<noteq> None then idListsSyncTimer st
         else Some (if rulesetsAlive st clk \<and> rulesetsSyncTimer st \<noteq> None then timersCreated st
                    else Suc (timersCreated st))) \<and>
      idListsSyncTimerLastActiveTime (snd (resetSyncTimerIfExited st clk)) =
        (if idListsAlive st clk \<and> idListsSyncTimer st \<noteq> None
         then idListsSyncTimerLastActiveTime st else nowIdListsPoll clk))"
proof (cases "rulesetsAlive st clk \<and> idListsAlive st clk")
  case True
  then show ?thesis by (simp add: reset_unfold)
next
  case False
  have "fst (resetSyncTimerIfExited st clk) =
        Some ((if rulesetsAlive st clk then []
               else rulesetsMessage (rulesetsSyncTimerLastActiveTime st) (nowRulesetsMessage clk)) @
              (if idListsAlive st clk then []
               else idListsMessage (idListsSyncTimerLastActiveTime st) (nowIdListsMessage clk)))"
    using False by (simp add: reset_unfold)
  with False reset_dead[OF False] reset_null_iff[of st clk] show ?thesis
    by auto
qed

theorem resetSyncTimerIfExited_watchdog_witness:
  "\<not> (rulesetsAlive startedStore (clockAt 130000) \<and> idListsAlive startedStore (clockAt 130000)) \<and>
   fst (resetSyncTimerIfExited startedStore (clockAt 130000)) \<noteq> None \<and>
   clearedTimers (snd (resetSyncTimerIfExited startedStore (clockAt 130000))) = [0] \<and>
   rulesetsSyncTimer (snd (resetSyncTimerIfExited startedStore (clockAt 130000))) = Some 2 \<and>
   rulesetsAlive startedStore (clockAt 110000) \<and> idListsAlive startedStore (clockAt 110000) \<and>
   resetSyncTimerIfExited startedStore (clockAt 110000) = (None, startedStore)"
  using resetSyncTimerIfExited_watchdog[of startedStore "clockAt 130000"]
    resetSyncTimerIfExited_watchdog[of startedStore "clockAt 110000"]
  by (simp add: rulesetsAlive_def idListsAlive_def withinBound_def deadHandles_def startedStore_def
      clockAt_def pollForUpdates_def poll_def newSpecStore_def exampleOptions_def prod_eq_iff)

text \<open>
  C9 as stated fails in its clause that both polling timers are rescheduled: with the
  rulesets timer dead and the ID-list timer live, the call returns an error, clears
  the rulesets timer (handle 0) and starts a new one (handle 2), and the ID-list loop
  keeps the timer it had (handle 1) and its last-active timestamp.
\<close>

theorem resetSyncTimerIfExited_keeps_live_timer:
  "\<not> rulesetsAlive startedStore (clockAt 130000) \<and>
   idListsAlive startedStore (clockAt 130000) \<and>
   fst (resetSyncTimerIfExited startedStore (clockAt 130000)) =
     Some ''Force reset sync timer. Last update time: 0, now: 130000'' \<and>
   rulesetsSyncTimer startedStore = Some 0 \<and>
   rulesetsSyncTimer (snd (resetSyncTimerIfExited startedStore (clockAt 130000))) = Some 2 \<and>
   idListsSyncTimer startedStore = Some 1 \<and>
   idListsSyncTimer (snd (resetSyncTimerIfExited startedStore (clockAt 130000))) = Some 1 \<and>
   idListsSyncTimerLastActiveTime (snd (resetSyncTimerIfExited startedStore (clockAt 130000))) = 100000 \<and>
   clearedTimers (snd (resetSyncTimerIfExited startedStore (clockAt 130000))) = [0]"
  by (simp add: reset_unfold pollForUpdates_fields clear_fields clearRulesetsSyncTimer_idListsLastActive
      rulesetsAlive_def idListsAlive_def withinBound_def startedStore_def clockAt_def
      pollForUpdates_def poll_def newSpecStore_def exampleOptions_def rulesetsMessage_def showInt_def)

section \<open>Properties of the error boundary\<close>

lemma logError_invariant:
  assumes "set (map exception (posts eb)) \<subseteq> seen eb" and "distinct (map exception (posts eb))"
  shows "set (map exception (posts (logError eb e k))) \<subseteq> seen (logError eb e k) \<and>
         distinct (map exception (posts (logError eb e k)))"
  using assms by (auto simp: logError_def Let_def split: option.splits)

text \<open>
  Deduplication by name holds: from a new boundary, whatever the calls of
  \<^verbatim>\<open>logError\<close>, no two posted requests carry the same error name.
\<close>

lemma logErrors_distinct_names:
  "set (map exception (posts eb)) \<subseteq> seen eb \<Longrightarrow> distinct (map exception (posts eb)) \<Longrightarrow>
   distinct (map exception (posts (logErrors eb calls)))"
proof (induction calls arbitrary: eb)
  case Nil
  then show ?case by simp
next
  case (Cons c calls)
  obtain e k where c: "c = (e, k)" by (cases c)
  from logError_invariant[OF Cons.prems, of e k] Cons.IH[of "logError eb e k"] c
  show ?case by simp
qed

lemma newErrorBoundary_distinct_names:
  "distinct (map exception (posts (logErrors (newErrorBoundary key) calls)))"
  by (rule logErrors_distinct_names) (simp_all add: newErrorBoundary_def)

text \<open>
  C5. \<^verbatim>\<open>capture(task, recover)\<close> hands back the task's result when the task succeeds,
  with a value or with a promise that resolves. When the task throws, or its promise
  rejects, with an Uninitialized, InvalidArgument or TooManyRequests error, the same
  error is thrown (the promise rejects with it) and nothing is logged. A
  LocalModeNetwork error yields \<^verbatim>\<open>recover(err)\<close> and leaves no trace: nothing logged,
  nothing posted. Every other error is passed to \<^verbatim>\<open>OutputLogger.error\<close> and then to
  \<^verbatim>\<open>logError\<close>, the reporter, and \<^verbatim>\<open>capture\<close> yields \<^verbatim>\<open>recover(err)\<close>.
\<close>

theorem capture_contract:
  "(task = Returns (Value v) \<longrightarrow> capture eb task recover = (Returns (Value v), eb)) \<and>
   (task = Returns (Promise (Returns v)) \<longrightarrow>
      capture eb task recover = (Returns (Promise (Returns v)), eb)) \<and>
   (failure task = Some e \<and> propagated e \<longrightarrow> capture eb task recover = (task, eb)) \<and>
   (failure task = Some e \<and> localModeNetwork e \<longrightarrow>
      capture eb task recover = (recovered task (recover e), eb)) \<and>
   (failure task = Some e \<and> \<not> propagated e \<and> \<not> localModeNetwork e \<longrightarrow>
      capture eb task recover =
        (recovered task (recover e),
         logError (eb\<lparr>outputErrors := outputErrors eb @ [e]\<rparr>) e None))"
  by (cases "(eb, task, recover)" rule: capture.cases)
     (auto simp: onCaught_def elim: propagated.elims localModeNetwork.elims)

theorem capture_contract_witness:
  "capture (newErrorBoundary ''secret-key'') (Returns (Value (1::nat))) (\<lambda>e. 0)
     = (Returns (Value 1), newErrorBoundary ''secret-key'') \<and>
   capture (newErrorBoundary ''secret-key'') (Returns (Promise (Returns (1::nat)))) (\<lambda>e. 0)
     = (Returns (Promise (Returns 1)), newErrorBoundary ''secret-key'') \<and>
   failure (Throws (ErrorObject StatsigUninitializedError ''StatsigUninitializedError'' []))
     = Some (ErrorObject StatsigUninitializedError ''StatsigUninitializedError'' []) \<and>
   propagated (ErrorObject StatsigUninitializedError ''StatsigUninitializedError'' []) \<and>
   capture (newErrorBoundary ''secret-key'')
       (Throws (ErrorObject StatsigUninitializedError ''StatsigUninitializedError'' [])) (\<lambda>e. 0::nat)
     = (Throws (ErrorObject StatsigUninitializedError ''StatsigUninitializedError'' []),
        newErrorBoundary ''secret-key'') \<and>
   localModeNetwork (ErrorObject StatsigLocalModeNetworkError ''StatsigLocalModeNetworkError'' []) \<and>
   capture (newErrorBoundary ''secret-key'')
       (Returns (Promise (Throws (ErrorObject StatsigLocalModeNetworkError ''StatsigLocalModeNetworkError'' []))))
       (\<lambda>e. 0::nat)
     = (Returns (Promise (Returns 0)), newErrorBoundary ''secret-key'') \<and>
   \<not> propagated (ErrorObject OtherError ''TypeError'' ''TypeError: x is undefined'') \<and>
   \<not> localModeNetwork (ErrorObject OtherError ''TypeError'' ''TypeError: x is undefined'') \<and>
   capture (newErrorBoundary ''secret-key'')
       (Throws (ErrorObject OtherError ''TypeError'' ''TypeError: x is undefined'')) (\<lambda>e. 0::nat)
     = (Returns (Value 0),
        \<lparr>sdkKey = ''secret-key'', seen = {''TypeError''},
         outputErrors = [ErrorObject OtherError ''TypeError'' ''TypeError: x is undefined''],
         posts = [\<lparr>apiKey = ''secret-key'', exception = ''TypeError'',
                   info = Some ''TypeError: x is undefined''\<rparr>]\<rparr>)"
  using capture_contract[where task = "Returns (Value (1::nat))" and v = 1
      and eb = "newErrorBoundary ''secret-key''" and recover = "\<lambda>e. 0"]
    capture_contract[where task = "Returns (Promise (Returns (1::nat)))" and v = 1
      and eb = "newErrorBoundary ''secret-key''" and recover = "\<lambda>e. 0"]
    capture_contract[where task = "Throws (ErrorObject StatsigUninitializedError ''StatsigUninitializedError'' [])"
      and e = "ErrorObject StatsigUninitializedError ''StatsigUninitializedError'' []"
      and eb = "newErrorBoundary ''secret-key''" and recover = "\<lambda>e. 0::nat"]
    capture_contract[where task = "Returns (Promise (Throws (ErrorObject StatsigLocalModeNetworkError ''StatsigLocalModeNetworkError'' [])))"
      and e = "ErrorObject StatsigLocalModeNetworkError ''StatsigLocalModeNetworkError'' []"
      and eb = "newErrorBoundary ''secret-key''" and recover = "\<lambda>e. 0::nat"]
    capture_contract[where task = "Throws (ErrorObject OtherError ''TypeError'' ''TypeError: x is undefined'')"
      and e = "ErrorObject OtherError ''TypeError'' ''TypeError: x is undefined''"
      and eb = "newErrorBoundary ''secret-key''" and recover = "\<lambda>e. 0::nat"]
  by (simp add: logError_def newErrorBoundary_def Let_def)

text \<open>
  C6 on the code. Two calls of \<^verbatim>\<open>logError\<close> on a new boundary, with errors of
  different names and the same explicit key \<^verbatim>\<open>'evaluator'\<close>, both post: the key is
  looked up in \<^verbatim>\<open>seen\<close> but only the name is ever added to it.
\<close>

theorem logError_posts_twice_for_one_key:
  "postingCalls (newErrorBoundary ''secret-key'')
     [(ErrorObject OtherError ''TypeError'' ''TypeError: a'', Some ''evaluator''),
      (ErrorObject OtherError ''RangeError'' ''RangeError: b'', Some ''evaluator'')]
     = [(Some ''evaluator'', True), (Some ''evaluator'', True)] \<and>
   map exception (posts (logErrors (newErrorBoundary ''secret-key'')
     [(ErrorObject OtherError ''TypeError'' ''TypeError: a'', Some ''evaluator''),
      (ErrorObject OtherError ''RangeError'' ''RangeError: b'', Some ''evaluator'')]))
     = [''TypeError'', ''RangeError''] \<and>
   seen (logErrors (newErrorBoundary ''secret-key'')
     [(ErrorObject OtherError ''TypeError'' ''TypeError: a'', Some ''evaluator''),
      (ErrorObject OtherError ''RangeError'' ''RangeError: b'', Some ''evaluator'')])
     = {''TypeError'', ''RangeError''}"
  by (auto simp: logError_def newErrorBoundary_def Let_def)

section \<open>Properties of the ranged fetch\<close>

lemmas parseInt_defs = parseInt_def isWhiteSpace_def digitValue_def digitsValue_def

text \<open>
  \<^verbatim>\<open>genFetchIDList\<close> itself never removes an entry: the branch that deletes is guarded
  by a test that no result of \<^verbatim>\<open>parseInt\<close> fails.
\<close>

lemma genFetchIDList_keeps_entries:
  "dom (idLists (store (genFetchIDList (\<lambda>idls name text. idls) st name res))) = dom (idLists (store st))"
  by (cases "parseInt (the (contentLength (case res of Response r \<Rightarrow> r)))")
     (auto simp: genFetchIDList_def Let_def split: fetch_result.splits option.splits completion.splits)

text \<open>
  With a list in the store and a Content-Length header on the response, the list
  handed to \<^verbatim>\<open>updateIdList\<close> has had what \<^verbatim>\<open>parseInt\<close> makes of the header added to
  its \<^verbatim>\<open>readBytes\<close>.
\<close>

lemma genFetchIDList_adds_length:
  assumes "idLists (store st) name = Some l" and "contentLength r = Some h" and "body r = Returns b"
  shows "idLists (store (genFetchIDList f st name (Response r))) =
           f ((idLists (store st))(name \<mapsto> l\<lparr>readBytes := addNum (readBytes l) (parseInt h)\<rparr>)) name b"
  using assms by (cases "parseInt h") (simp_all add: genFetchIDList_def Let_def)

text \<open>
  C7 on the code. A ranged response for \<^verbatim>\<open>list_1\<close> whose Content-Length is \<^verbatim>\<open>abc\<close>:
  \<^verbatim>\<open>parseInt\<close> yields \<^verbatim>\<open>NaN\<close>, which passes \<^verbatim>\<open>typeof length === 'number'\<close>, so the
  entry stays in the store, its \<^verbatim>\<open>readBytes\<close> becomes \<^verbatim>\<open>NaN\<close> (not \<open>\<ge> 0\<close>) and the
  body is applied to it. With a Content-Length of \<^verbatim>\<open>-5\<close> the entry stays and
  \<^verbatim>\<open>readBytes\<close> goes from 100 to 95; with no Content-Length header the entry stays as
  it was; with \<^verbatim>\<open>50\<close> it goes to 150.
\<close>

theorem genFetchIDList_malformed_length_keeps_entry:
  "parseInt ''abc'' = NaN \<and>
   idLists (store (genFetchIDList updateIdList listedStore ''list_1''
      (Response \<lparr>contentLength = Some ''abc'', body = Returns (''+a'' @ [CHR 0x0A])\<rparr>))) ''list_1''
     = Some \<lparr>ids = {''a''}, readBytes = NaN, url = ''https://cdn/list_1'', fileID = ''file_1'',
             creationTime = 1\<rparr> \<and>
   \<not> nonNegative NaN \<and>
   idLists (store (genFetchIDList updateIdList listedStore ''list_1''
      (Response \<lparr>contentLength = Some ''-5'', body = Returns []\<rparr>))) ''list_1''
     = Some \<lparr>ids = {}, readBytes = Num 95, url = ''https://cdn/list_1'', fileID = ''file_1'',
             creationTime = 1\<rparr> \<and>
   genFetchIDList updateIdList listedStore ''list_1''
      (Response \<lparr>contentLength = None, body = Returns (''+a'' @ [CHR 0x0A])\<rparr>) = listedStore \<and>
   idLists (store (genFetchIDList updateIdList listedStore ''list_1''
      (Response \<lparr>contentLength = Some ''50'', body = Returns (''+a'' @ [CHR 0x0A])\<rparr>))) ''list_1''
     = Some \<lparr>ids = {''a''}, readBytes = Num 150, url = ''https://cdn/list_1'', fileID = ''file_1'',
             creationTime = 1\<rparr>"
  by (simp add: genFetchIDList_def listedStore_def newSpecStore_def parseInt_defs updateIdList_def Let_def)

section \<open>Properties of initialisation and sync\<close>

lemma succeeded_process: "succeeded (fst (process d st p)) = accepts d p"
proof (cases "falsy (getProp p ''has_updates'')")
  case True
  then show ?thesis by (simp add: process_no_updates accepts_def)
next
  case False
  show ?thesis
  proof (cases "malformed d p")
    case True
    with False show ?thesis by (simp add: process_rejected accepts_def)
  next
    case wf: False
    then obtain gs cs ls where arr:
      "asArray (getProp p ''feature_gates'') = Some gs"
      "asArray (getProp p ''dynamic_configs'') = Some cs"
      "asArray (getProp p ''layer_configs'') = Some ls"
      by (auto simp: malformed_def)
    with wf obtain g c l where built:
      "buildSpecs d gs Map.empty = Some g" "buildSpecs d cs Map.empty = Some c"
      "buildSpecs d ls Map.empty = Some l"
      using buildSpecs_None_iff[of d gs Map.empty] buildSpecs_None_iff[of d cs Map.empty]
        buildSpecs_None_iff[of d ls Map.empty]
      by (auto simp: malformed_def constructorThrows_def)
    with False wf arr show ?thesis
      by (simp add: process_def accepts_def Let_def split: option.splits)
  qed
qed

lemma initReason_process: "initReason (snd (process d st p)) = initReason st"
  by (auto simp: process_def Let_def split: option.splits)

lemma dataAdapter_process: "dataAdapter (snd (process d st p)) = dataAdapter st"
  by (auto simp: process_def Let_def split: option.splits)

lemma bootstrapValues_process: "bootstrapValues (snd (process d st p)) = bootstrapValues st"
  by (auto simp: process_def Let_def split: option.splits)

lemma initReason_fetchConfigSpecsFromServer:
  "initReason (snd (fetchConfigSpecsFromServer d st (download env) (rulesUpdatedCallback env))) =
     (if networkSucceeds d env then ''Network'' else initReason st)"
proof (cases "download env")
  case (Throws e)
  then show ?thesis by (simp add: fetchConfigSpecsFromServer_def networkSucceeds_def)
next
  case (Returns str)
  show ?thesis
  proof (cases "JSON_parse d str")
    case None
    with Returns show ?thesis
      by (simp add: fetchConfigSpecsFromServer_def networkSucceeds_def processedOk_def)
  next
    case (Some p)
    obtain r st1 where pr: "process d st p = (r, st1)" by (cases "process d st p")
    with succeeded_process[of d st p] initReason_process[of d st p]
    have "succeeded r = accepts d p" "initReason st1 = initReason st" by simp_all
    with Returns Some pr show ?thesis
      by (cases r)
        (auto simp: fetchConfigSpecsFromServer_def networkSucceeds_def processedOk_def Let_def
          split: callback.splits)
  qed
qed


lemma initReason_fetchConfigSpecsFromAdapter:
  "initReason (snd (fetchConfigSpecsFromAdapter d st (adapterGetRulesets env))) =
     (if adapterSucceeds d st env then ''DataAdapter'' else initReason st)"
proof (cases "dataAdapter st")
  case None
  then show ?thesis by (simp add: fetchConfigSpecsFromAdapter_def adapterSucceeds_def Let_def)
next
  case adapter: (Some a)
  show ?thesis
  proof (cases "adapterGetRulesets env")
    case (Throws e)
    with adapter show ?thesis by (simp add: fetchConfigSpecsFromAdapter_def adapterSucceeds_def Let_def)
  next
    case (Returns resp)
    show ?thesis
    proof (cases "result resp")
      case None
      with adapter Returns show ?thesis
        by (simp add: fetchConfigSpecsFromAdapter_def adapterSucceeds_def Let_def)
    next
      case (Some str)
      show ?thesis
      proof (cases "JSON_parse d str")
        case None
        with adapter Returns Some show ?thesis
          by (simp add: fetchConfigSpecsFromAdapter_def adapterSucceeds_def processedOk_def Let_def)
      next
        case parsed: (Some p)
        obtain r st1 where pr: "process d st p = (r, st1)" by (cases "process d st p")
        with succeeded_process[of d st p] initReason_process[of d st p]
        have "succeeded r = accepts d p" "initReason st1 = initReason st" by simp_all
        with adapter Returns Some parsed pr show ?thesis
          by (cases r)
            (auto simp: fetchConfigSpecsFromAdapter_def adapterSucceeds_def processedOk_def Let_def)
      qed
    qed
  qed
qed

lemma initReason_syncConfigSpecs:
  "initReason (syncConfigSpecs d st env) = syncSource d st env"
proof (cases "shouldSyncFromAdapter st Rulesets")
  case True
  obtain r st1 where f: "fetchConfigSpecsFromAdapter d st (adapterGetRulesets env) = (r, st1)"
    by (cases "fetchConfigSpecsFromAdapter d st (adapterGetRulesets env)")
  with initReason_fetchConfigSpecsFromAdapter[of d st env]
  have "initReason st1 = (if adapterSucceeds d st env then ''DataAdapter'' else initReason st)"
    by simp
  with True f show ?thesis
    by (simp add: syncConfigSpecs_def syncSource_def Let_def)
next
  case False
  obtain r st1 where f:
    "fetchConfigSpecsFromServer d st (download env) (rulesUpdatedCallback env) = (r, st1)"
    by (cases "fetchConfigSpecsFromServer d st (download env) (rulesUpdatedCallback env)")
  with initReason_fetchConfigSpecsFromServer[of d st env]
  have "initReason st1 = (if networkSucceeds d env then ''Network'' else initReason st)"
    by simp
  with False f show ?thesis
    by (simp add: syncConfigSpecs_def syncSource_def Let_def)
qed

lemma initReason_genFetchIDList: "initReason (genFetchIDList f st name res) = initReason st"
  by (cases "parseInt (the (contentLength (case res of Response r \<Rightarrow> r)))")
     (auto simp: genFetchIDList_def Let_def split: fetch_result.splits option.splits completion.splits)

lemma dataAdapter_genFetchIDList: "dataAdapter (genFetchIDList f st name res) = dataAdapter st"
  by (cases "parseInt (the (contentLength (case res of Response r \<Rightarrow> r)))")
     (auto simp: genFetchIDList_def Let_def split: fetch_result.splits option.splits completion.splits)

lemma initReason_fetches:
  "initReason (foldl (\<lambda>s name. genFetchIDList f s name (g name)) st names) = initReason st"
  by (induction names arbitrary: st) (simp_all add: initReason_genFetchIDList)

lemma dataAdapter_fetches:
  "dataAdapter (foldl (\<lambda>s name. genFetchIDList f s name (g name)) st names) = dataAdapter st"
  by (induction names arbitrary: st) (simp_all add: dataAdapter_genFetchIDList)

lemma initReason_syncIdListsFromNetwork:
  "initReason (snd (syncIdListsFromNetwork u st env)) = initReason st"
  by (auto simp: syncIdListsFromNetwork_def Let_def initReason_fetches
      split: completion.splits option.splits prod.splits)

lemma dataAdapter_syncIdListsFromNetwork:
  "dataAdapter (snd (syncIdListsFromNetwork u st env)) = dataAdapter st"
  by (auto simp: syncIdListsFromNetwork_def Let_def dataAdapter_fetches
      split: completion.splits option.splits prod.splits)

lemma initReason_syncIdListsFromDataAdapter:
  "initReason (snd (syncIdListsFromDataAdapter u st env)) = initReason st"
  by (auto simp: syncIdListsFromDataAdapter_def Let_def split: completion.splits option.splits)

lemma initReason_initIDLists: "initReason (initIDLists u st env) = initReason st"
proof -
  obtain r st1 where f:
    "(if dataAdapter st \<noteq> None then syncIdListsFromDataAdapter u st env
      else syncIdListsFromNetwork u st env) = (r, st1)"
    by (cases "if dataAdapter st \<noteq> None then syncIdListsFromDataAdapter u st env
               else syncIdListsFromNetwork u st env")
  then have "initReason st1 = initReason st"
    using initReason_syncIdListsFromDataAdapter[of u st env]
      initReason_syncIdListsFromNetwork[of u st env]
    by (auto split: if_splits)
  with f show ?thesis
    unfolding initIDLists_def Let_def
    by (simp add: initReason_syncIdListsFromNetwork)
qed

lemma initReason_syncIdLists: "initReason (syncIdLists u st env) = initReason st"
proof (cases "initStrategyForIDLists st = ''none''")
  case True
  then show ?thesis by (simp add: syncIdLists_def)
next
  case False
  obtain r0 st0 where f0:
    "(if shouldSyncFromAdapter st IDLists then syncIdListsFromDataAdapter u st env
      else syncIdListsFromNetwork u st env) = (r0, st0)"
    by (cases "if shouldSyncFromAdapter st IDLists then syncIdListsFromDataAdapter u st env
               else syncIdListsFromNetwork u st env")
  then have i0: "initReason st0 = initReason st"
    using initReason_syncIdListsFromDataAdapter[of u st env]
      initReason_syncIdListsFromNetwork[of u st env]
    by (auto split: if_splits)
  obtain r st1 where f1:
    "(if shouldSyncFromAdapter st IDLists \<and> error r0 \<noteq> None then syncIdListsFromNetwork u st0 env
      else (r0, st0)) = (r, st1)"
    by (cases "if shouldSyncFromAdapter st IDLists \<and> error r0 \<noteq> None
               then syncIdListsFromNetwork u st0 env else (r0, st0)")
  then have "initReason st1 = initReason st"
    using i0 initReason_syncIdListsFromNetwork[of u st0 env] by (auto split: if_splits)
  with False f0 f1 show ?thesis
    unfolding syncIdLists_def Let_def by simp
qed

lemma initReason_pollForUpdates: "initReason (pollForUpdates st a b) = initReason st"
  by (simp add: pollForUpdates_def poll_def Let_def)

lemma initReason_clear:
  "initReason (clearRulesetsSyncTimer st) = initReason st"
  "initReason (clearIdListsSyncTimer st) = initReason st"
  by (simp_all add: clearRulesetsSyncTimer_def clearIdListsSyncTimer_def split: option.splits)

lemma initReason_resetSyncTimerIfExited:
  "initReason (snd (resetSyncTimerIfExited st clk)) = initReason st"
  by (simp add: reset_unfold initReason_pollForUpdates initReason_clear)

lemma initReason_shutdown: "initReason (shutdown st) = initReason st"
  by (simp add: shutdown_def clearTimers_def initReason_clear)


lemma process_independent:
  assumes "lastUpdateTime st = lastUpdateTime st'"
  shows "fst (process d st p) = fst (process d st' p)"
    and "lastUpdateTime (snd (process d st p)) = lastUpdateTime (snd (process d st' p))"
  using assms by (auto simp: process_def Let_def split: option.splits)

lemma bootstrapSucceeds_cong:
  assumes "bootstrapValues st = bootstrapValues st'" and "lastUpdateTime st = lastUpdateTime st'"
  shows "bootstrapSucceeds d st = bootstrapSucceeds d st'"
proof -
  have "(case process d st p of (Throws e, st1) \<Rightarrow> False | (Returns r, st1) \<Rightarrow> lastUpdateTime st1 \<noteq> JNum 0)
      = (case process d st' p of (Throws e, st1) \<Rightarrow> False | (Returns r, st1) \<Rightarrow> lastUpdateTime st1 \<noteq> JNum 0)"
    for p
    using process_independent[OF assms(2), of d p]
    by (cases "process d st p"; cases "process d st' p") (auto split: completion.splits)
  with assms(1) show ?thesis
    by (simp add: bootstrapSucceeds_def split: option.splits)
qed

lemma lastUpdateTime_process_failed:
  "\<not> succeeded (fst (process d st p)) \<Longrightarrow> lastUpdateTime (snd (process d st p)) = lastUpdateTime st"
  by (auto simp: process_def Let_def split: option.splits)

lemma frame_fetchConfigSpecsFromAdapter:
  "bootstrapValues (snd (fetchConfigSpecsFromAdapter d st got)) = bootstrapValues st"
  "dataAdapter (snd (fetchConfigSpecsFromAdapter d st got)) = dataAdapter st"
proof -
  have "bootstrapValues (snd (fetchConfigSpecsFromAdapter d st got)) = bootstrapValues st \<and>
        dataAdapter (snd (fetchConfigSpecsFromAdapter d st got)) = dataAdapter st"
  proof (cases "\<exists>resp str p. got = Returns resp \<and> result resp = Some str \<and> JSON_parse d str = Some p")
    case True
    then obtain resp str p where g: "got = Returns resp" "result resp = Some str" "JSON_parse d str = Some p"
      by blast
    obtain r st1 where pr: "process d st p = (r, st1)" by (cases "process d st p")
    with bootstrapValues_process[of d st p] dataAdapter_process[of d st p]
    have "bootstrapValues st1 = bootstrapValues st" "dataAdapter st1 = dataAdapter st" by simp_all
    with g pr show ?thesis
      by (cases r) (auto simp: fetchConfigSpecsFromAdapter_def Let_def split: option.splits)
  next
    case False
    then show ?thesis
      by (auto simp: fetchConfigSpecsFromAdapter_def Let_def split: option.splits completion.splits)
  qed
  then show "bootstrapValues (snd (fetchConfigSpecsFromAdapter d st got)) = bootstrapValues st"
    and "dataAdapter (snd (fetchConfigSpecsFromAdapter d st got)) = dataAdapter st"
    by simp_all
qed

lemma lastUpdateTime_adapter_failed:
  assumes "\<not> adapterSucceeds d st env"
  shows "lastUpdateTime (snd (fetchConfigSpecsFromAdapter d st (adapterGetRulesets env))) = lastUpdateTime st"
proof (cases "\<exists>a resp str p. dataAdapter st = Some a \<and> adapterGetRulesets env = Returns resp \<and>
    result resp = Some str \<and> str \<noteq> [] \<and> adapterError resp = None \<and> JSON_parse d str = Some p")
  case True
  then obtain a resp str p where g: "dataAdapter st = Some a" "adapterGetRulesets env = Returns resp"
    "result resp = Some str" "str \<noteq> []" "adapterError resp = None" "JSON_parse d str = Some p"
    by blast
  with assms have na: "\<not> accepts d p"
    by (simp add: adapterSucceeds_def processedOk_def)
  obtain r st1 where pr: "process d st p = (r, st1)" by (cases "process d st p")
  with na succeeded_process[of d st p] lastUpdateTime_process_failed[of d st p]
  have "\<not> succeeded r" "lastUpdateTime st1 = lastUpdateTime st" by simp_all
  with g pr show ?thesis
    by (cases r) (auto simp: fetchConfigSpecsFromAdapter_def Let_def)
next
  case False
  then show ?thesis
    by (auto simp: fetchConfigSpecsFromAdapter_def Let_def split: option.splits completion.splits)
qed

lemma initReason_bootstrap:
  "initReason (bootstrap d st) =
     (if initReason st = ''Uninitialized'' \<and> bootstrapSucceeds d st then ''Bootstrap''
      else initReason st)"
proof (cases "\<exists>str p. bootstrapValues st = Some str \<and> JSON_parse d str = Some p")
  case True
  then obtain str p where g: "bootstrapValues st = Some str" "JSON_parse d str = Some p" by blast
  obtain r st1 where pr: "process d st p = (r, st1)" by (cases "process d st p")
  with initReason_process[of d st p] have "initReason st1 = initReason st" by simp
  with g pr show ?thesis
    by (cases r) (auto simp: bootstrap_def bootstrapSucceeds_def)
next
  case False
  then show ?thesis
    by (auto simp: bootstrap_def bootstrapSucceeds_def split: option.splits)
qed

lemma initReason_setInitialUpdateTime: "initReason (setInitialUpdateTime st) = initReason st"
  by (simp add: setInitialUpdateTime_def)

lemma initReason_init:
  assumes "initReason st = ''Uninitialized''"
  shows "initReason (snd (init d u st env)) = initSource d st env"
proof (cases "dataAdapter st \<noteq> None \<and> adapterInitialize env \<noteq> None")
  case True
  with assms show ?thesis
    by (auto simp: init_def initSource_def)
next
  case False
  define st1 where "st1 =
    (if dataAdapter st \<noteq> None
     then snd (fetchConfigSpecsFromAdapter d st (adapterGetRulesets (rulesets env))) else st)"
  define st2 where "st2 = bootstrap d st1"
  define st3 where "st3 =
    (if initReason st2 = ''Uninitialized''
     then snd (fetchConfigSpecsFromServer d st2 (download (rulesets env))
                 (rulesUpdatedCallback (rulesets env)))
     else st2)"
  have none: "dataAdapter st = None \<Longrightarrow> \<not> adapterSucceeds d st (rulesets env)"
    by (simp add: adapterSucceeds_def)
  have r1: "initReason st1 =
      (if adapterSucceeds d st (rulesets env) then ''DataAdapter'' else ''Uninitialized'')"
    using assms none
    by (auto simp: st1_def initReason_fetchConfigSpecsFromAdapter)
  have b1: "\<not> adapterSucceeds d st (rulesets env) \<Longrightarrow> bootstrapSucceeds d st1 = bootstrapSucceeds d st"
    by (rule bootstrapSucceeds_cong)
       (auto simp: st1_def frame_fetchConfigSpecsFromAdapter lastUpdateTime_adapter_failed)
  have r2: "initReason st2 =
      (if adapterSucceeds d st (rulesets env) then ''DataAdapter''
       else if bootstrapSucceeds d st then ''Bootstrap'' else ''Uninitialized'')"
    using r1 b1 by (auto simp: st2_def initReason_bootstrap)
  have r3: "initReason st3 = initSource d st env"
    using r2 False
    by (auto simp: st3_def initReason_fetchConfigSpecsFromServer initSource_def)
  have "snd (init d u st env) =
      (pollForUpdates
         (if initStrategyForIDLists (setInitialUpdateTime st3) = ''lazy'' then setInitialUpdateTime st3
          else if initStrategyForIDLists (setInitialUpdateTime st3) \<noteq> ''none''
          then initIDLists u (setInitialUpdateTime st3) (idlists env)
          else setInitialUpdateTime st3)
         (nowRulesets env) (nowIdLists env))\<lparr>initialized := True\<rparr>"
    using False
    by (auto simp: init_def Let_def st1_def st2_def st3_def split: option.splits)
  then show ?thesis
    using r3
    by (simp add: initReason_pollForUpdates initReason_initIDLists initReason_setInitialUpdateTime)
qed

lemma syncSource_lastActive:
  "syncSource d (st\<lparr>rulesetsSyncTimerLastActiveTime := t\<rparr>) env = syncSource d st env"
  by (simp add: syncSource_def shouldSyncFromAdapter_def adapterSucceeds_def)

lemma initReason_step_other:
  "\<not> isInit op \<Longrightarrow> \<not> isRulesetsTick op \<Longrightarrow> initReason (step d u st op) = initReason st"
  by (cases op)
     (simp_all add: initReason_initIDLists initReason_syncIdLists initReason_resetSyncTimerIfExited
        initReason_shutdown)

lemma initSource_in: "initSource d st env \<in> initReasons"
  by (simp add: initSource_def initReasons_def)

lemma syncSource_in: "initReason st \<in> initReasons \<Longrightarrow> syncSource d st env \<in> initReasons"
  by (simp add: syncSource_def initReasons_def)

lemma initReason_init_any:
  "initReason st \<in> initReasons \<Longrightarrow> initReason (snd (init d u st env)) \<in> initReasons"
proof (cases "dataAdapter st \<noteq> None \<and> adapterInitialize env \<noteq> None")
  case True
  assume "initReason st \<in> initReasons"
  with True show ?thesis by (auto simp: init_def)
next
  case False
  assume a: "initReason st \<in> initReasons"
  define st1 where "st1 =
    (if dataAdapter st \<noteq> None
     then snd (fetchConfigSpecsFromAdapter d st (adapterGetRulesets (rulesets env))) else st)"
  define st2 where "st2 = bootstrap d st1"
  define st3 where "st3 =
    (if initReason st2 = ''Uninitialized''
     then snd (fetchConfigSpecsFromServer d st2 (download (rulesets env))
                 (rulesUpdatedCallback (rulesets env)))
     else st2)"
  have "initReason st1 \<in> initReasons"
    using a by (auto simp: st1_def initReason_fetchConfigSpecsFromAdapter initReasons_def)
  then have "initReason st2 \<in> initReasons"
    by (auto simp: st2_def initReason_bootstrap initReasons_def)
  then have r3: "initReason st3 \<in> initReasons"
    by (auto simp: st3_def initReason_fetchConfigSpecsFromServer initReasons_def)
  have "snd (init d u st env) =
      (pollForUpdates
         (if initStrategyForIDLists (setInitialUpdateTime st3) = ''lazy'' then setInitialUpdateTime st3
          else if initStrategyForIDLists (setInitialUpdateTime st3) \<noteq> ''none''
          then initIDLists u (setInitialUpdateTime st3) (idlists env)
          else setInitialUpdateTime st3)
         (nowRulesets env) (nowIdLists env))\<lparr>initialized := True\<rparr>"
    using False
    by (auto simp: init_def Let_def st1_def st2_def st3_def split: option.splits)
  then show ?thesis
    using r3
    by (simp add: initReason_pollForUpdates initReason_initIDLists initReason_setInitialUpdateTime)
qed

lemma initReason_step_in:
  "initReason st \<in> initReasons \<Longrightarrow> initReason (step d u st op) \<in> initReasons"
  by (cases op)
     (simp_all add: initReason_init_any initReason_syncConfigSpecs syncSource_lastActive syncSource_in
        initReason_initIDLists initReason_syncIdLists initReason_resetSyncTimerIfExited
        initReason_shutdown)

lemma initReason_run_in:
  "initReason st \<in> initReasons \<Longrightarrow> initReason (run d u st ops) \<in> initReasons"
  by (induction ops arbitrary: st) (simp_all add: initReason_step_in)


lemma dataAdapter_fetchConfigSpecsFromServer:
  "dataAdapter (snd (fetchConfigSpecsFromServer d st dl cb)) = dataAdapter st"
proof (cases "\<exists>str p. dl = Returns str \<and> JSON_parse d str = Some p")
  case True
  then obtain str p where g: "dl = Returns str" "JSON_parse d str = Some p" by blast
  obtain r st1 where pr: "process d st p = (r, st1)" by (cases "process d st p")
  with dataAdapter_process[of d st p] have "dataAdapter st1 = dataAdapter st" by simp
  with g pr show ?thesis
    by (cases r) (auto simp: fetchConfigSpecsFromServer_def Let_def split: callback.splits)
next
  case False
  then show ?thesis
    by (auto simp: fetchConfigSpecsFromServer_def split: completion.splits option.splits)
qed

lemma dataAdapter_bootstrap: "dataAdapter (bootstrap d st) = dataAdapter st"
proof (cases "\<exists>str p. bootstrapValues st = Some str \<and> JSON_parse d str = Some p")
  case True
  then obtain str p where g: "bootstrapValues st = Some str" "JSON_parse d str = Some p" by blast
  obtain r st1 where pr: "process d st p = (r, st1)" by (cases "process d st p")
  with dataAdapter_process[of d st p] have "dataAdapter st1 = dataAdapter st" by simp
  with g pr show ?thesis
    by (cases r) (auto simp: bootstrap_def)
next
  case False
  then show ?thesis
    by (auto simp: bootstrap_def split: option.splits)
qed

lemma dataAdapter_syncIdListsFromDataAdapter:
  "dataAdapter (snd (syncIdListsFromDataAdapter u st env)) = dataAdapter st"
  by (auto simp: syncIdListsFromDataAdapter_def Let_def split: completion.splits option.splits)

lemma dataAdapter_initIDLists: "dataAdapter (initIDLists u st env) = dataAdapter st"
proof -
  obtain r st1 where f:
    "(if dataAdapter st \<noteq> None then syncIdListsFromDataAdapter u st env
      else syncIdListsFromNetwork u st env) = (r, st1)"
    by (cases "if dataAdapter st \<noteq> None then syncIdListsFromDataAdapter u st env
               else syncIdListsFromNetwork u st env")
  then have "dataAdapter st1 = dataAdapter st"
    using dataAdapter_syncIdListsFromDataAdapter[of u st env]
      dataAdapter_syncIdListsFromNetwork[of u st env]
    by (auto split: if_splits)
  with f show ?thesis
    unfolding initIDLists_def Let_def
    by (simp add: dataAdapter_syncIdListsFromNetwork)
qed

lemma dataAdapter_pollForUpdates: "dataAdapter (pollForUpdates st a b) = dataAdapter st"
  by (simp add: pollForUpdates_def poll_def Let_def)

lemma dataAdapter_init: "dataAdapter (snd (init d u st env)) = dataAdapter st"
proof (cases "dataAdapter st \<noteq> None \<and> adapterInitialize env \<noteq> None")
  case True
  then show ?thesis by (auto simp: init_def)
next
  case False
  then show ?thesis
    by (auto simp: init_def Let_def setInitialUpdateTime_def frame_fetchConfigSpecsFromAdapter
        dataAdapter_fetchConfigSpecsFromServer dataAdapter_bootstrap dataAdapter_initIDLists
        dataAdapter_pollForUpdates split: option.splits)
qed

text \<open>
  C8, as the code has it. \<^verbatim>\<open>initReason\<close> is always one of Uninitialized, Network,
  Bootstrap, DataAdapter. On an uninitialised store \<^verbatim>\<open>init()\<close> sets it to the first
  source that succeeds, in the order adapter, bootstrap, network. After that a ruleset
  sync sets it to the source it synced from when that sync succeeds: Network for a
  sync from the network, DataAdapter for a sync from an adapter that supports polling
  for rulesets. No other operation changes it.
\<close>

theorem initReason_protocol:
  "initReason (run d u (newSpecStore d options now now') ops) \<in> initReasons \<and>
   (initReason st = ''Uninitialized'' \<longrightarrow>
      initReason (step d u st (Init env)) = initSource d st env) \<and>
   initReason (step d u st (RulesetsTick t renv)) = syncSource d st renv \<and>
   (\<not> isInit op \<and> \<not> isRulesetsTick op \<longrightarrow> initReason (step d u st op) = initReason st)"
proof -
  have "initReason (newSpecStore d options now now') \<in> initReasons"
    by (simp add: newSpecStore_def initReasons_def)
  then have "initReason (run d u (newSpecStore d options now now') ops) \<in> initReasons"
    by (rule initReason_run_in)
  then show ?thesis
    by (simp add: initReason_init initReason_syncConfigSpecs syncSource_lastActive
        initReason_step_other)
qed

theorem initReason_protocol_witness:
  "initReason (newSpecStore parsingDeps adapterOptions 0 0) = ''Uninitialized'' \<and>
   initReason (step parsingDeps exampleUtil (newSpecStore parsingDeps adapterOptions 0 0)
                 (Init initFromNetwork)) = ''Network'' \<and>
   \<not> isInit Shutdown \<and> \<not> isRulesetsTick Shutdown \<and>
   initReason (step parsingDeps exampleUtil (newSpecStore parsingDeps adapterOptions 0 0) Shutdown)
     = ''Uninitialized''"
  using initReason_protocol[where d = parsingDeps and u = exampleUtil
      and st = "newSpecStore parsingDeps adapterOptions 0 0" and env = initFromNetwork
      and op = Shutdown]
  by (simp add: newSpecStore_def initSource_def adapterSucceeds_def bootstrapSucceeds_def
      networkSucceeds_def processedOk_def accepts_def malformed_def constructorThrows_def
      reverseLayerExperimentMapping_def
      adapterOptions_def initFromNetwork_def networkServes_def parsingDeps_def nameOnlyDeps_def
      payloadAt_def specsText_def)

text \<open>
  C8 as stated fails in its clause that after \<^verbatim>\<open>init()\<close> only a network sync changes
  the reason: a store initialised from the network, whose adapter supports polling for
  rulesets, takes the reason DataAdapter at the first tick the adapter serves.
\<close>

theorem initReason_set_by_adapter_sync:
  "initReason (run parsingDeps exampleUtil (newSpecStore parsingDeps adapterOptions 0 0)
                 [Init initFromNetwork]) = ''Network'' \<and>
   initReason (run parsingDeps exampleUtil (newSpecStore parsingDeps adapterOptions 0 0)
                 [Init initFromNetwork, RulesetsTick 10000 adapterServes]) = ''DataAdapter''"
proof -
  let ?st0 = "newSpecStore parsingDeps adapterOptions 0 0"
  let ?st1 = "step parsingDeps exampleUtil ?st0 (Init initFromNetwork)"
  have a: "dataAdapter ?st0 = Some \<lparr>supportsPollingUpdatesFor = Some (\<lambda>key. key = Rulesets)\<rparr>"
    by (simp add: newSpecStore_def adapterOptions_def)
  have p: "processedOk parsingDeps specsText"
    by (simp add: processedOk_def accepts_def malformed_def constructorThrows_def
        reverseLayerExperimentMapping_def parsingDeps_def nameOnlyDeps_def payloadAt_def)
  have i: "initReason ?st1 = ''Network''"
    using p a
    by (simp add: initReason_init initSource_def adapterSucceeds_def bootstrapSucceeds_def
        networkSucceeds_def initFromNetwork_def networkServes_def newSpecStore_def adapterOptions_def)
  have d: "dataAdapter ?st1 = dataAdapter ?st0"
    by (simp add: dataAdapter_init)
  have "initReason (step parsingDeps exampleUtil ?st1 (RulesetsTick 10000 adapterServes)) = ''DataAdapter''"
    using p a d
    by (simp add: initReason_syncConfigSpecs syncSource_lastActive syncSource_def
        shouldSyncFromAdapter_def adapterSucceeds_def adapterServes_def specsText_def)
  with i show ?thesis by simp
qed

section \<open>Properties of the rule evaluator\<close>



end
